theory Spec2Isabelle
  imports Complex_Main "HOL-Library.AList"
begin

text \<open>
  The state normalization, reconciliation and budget computation of the trip planner:
  the budget snapshot calculator, the normalizers that turn stored, remote or imported
  JSON into typed records, the updaters that keep a destination consistent when its
  flights change or its saved baseline is overridden, and the push half of trip sync.
  The model comes first, function by function as the source has them; the terms the
  specification is stated in and the sample data follow; the properties come last.
\<close>

section \<open>Values\<close>

text \<open>
  A JavaScript \<open>number\<close> is either finite or one of the three special values that
  \<open>Number.isFinite\<close> rejects.  Finite amounts are kept as exact rationals: rounding of
  IEEE doubles is not modelled, every other operation the program performs on numbers
  (comparison, \<open>Math.floor\<close>, \<open>Math.max\<close>, the four arithmetic operations on finite
  amounts) is.
\<close>

datatype jsnum = Fin rat | NaN | PosInf | NegInf

text \<open>
  A value of TypeScript type \<open>unknown\<close> as it arrives from local storage, the remote
  store or an imported file.  An object is the list of its own enumerable properties in
  the order \<open>Object.entries\<close> reports them.
\<close>

datatype jsval =
    JUndefined
  | JNull
  | JBool bool
  | JNum jsnum
  | JStr string
  | JArr "jsval list"
  | JObj "(string \<times> jsval) list"

datatype jstype = TUndefined | TObject | TBoolean | TNumber | TString

fun typeof :: "jsval \<Rightarrow> jstype" where
  "typeof JUndefined = TUndefined"
| "typeof JNull = TObject"
| "typeof (JBool b) = TBoolean"
| "typeof (JNum n) = TNumber"
| "typeof (JStr s) = TString"
| "typeof (JArr xs) = TObject"
| "typeof (JObj kvs) = TObject"

fun truthy :: "jsval \<Rightarrow> bool" where
  "truthy JUndefined = False"
| "truthy JNull = False"
| "truthy (JBool b) = b"
| "truthy (JNum (Fin r)) = (r \<noteq> 0)"
| "truthy (JNum NaN) = False"
| "truthy (JNum PosInf) = True"
| "truthy (JNum NegInf) = True"
| "truthy (JStr s) = (s \<noteq> [])"
| "truthy (JArr xs) = True"
| "truthy (JObj kvs) = True"

fun isArray :: "jsval \<Rightarrow> bool" where
  "isArray (JArr xs) = True"
| "isArray v = False"

text \<open>
  The guard \<open>!v || typeof v !== 'object' || Array.isArray(v)\<close> that the normalizers put
  in front of every property access on a record.
\<close>

definition notPlainObject :: "jsval \<Rightarrow> bool" where
  "notPlainObject v \<longleftrightarrow> \<not> truthy v \<or> typeof v \<noteq> TObject \<or> isArray v"

text \<open>
  \<open>typeof v === 'number' && Number.isFinite(v)\<close>, returning the finite amount so that
  the comparison that follows in the source is a comparison of rationals.
\<close>

fun finiteNumber :: "jsval \<Rightarrow> rat option" where
  "finiteNumber (JNum (Fin r)) = Some r"
| "finiteNumber v = None"

fun stringValue :: "jsval \<Rightarrow> string option" where
  "stringValue (JStr s) = Some s"
| "stringValue v = None"

text \<open>
  Reading a data property \<open>v.k\<close> of a value that is neither \<open>null\<close> nor
  \<open>undefined\<close>: a missing property, and every property of a primitive or of an array
  that the program names, is \<open>undefined\<close>.
\<close>

fun member :: "jsval \<Rightarrow> string \<Rightarrow> jsval" where
  "member (JObj kvs) k = (case map_of kvs k of Some v \<Rightarrow> v | None \<Rightarrow> JUndefined)"
| "member v k = JUndefined"

fun entries :: "jsval \<Rightarrow> (string \<times> jsval) list" where
  "entries (JObj kvs) = kvs"
| "entries v = []"

fun isNullish :: "jsval \<Rightarrow> bool" where
  "isNullish JUndefined = True"
| "isNullish JNull = True"
| "isNullish v = False"

text \<open>\<open>String.prototype.trim\<close> on the white space of the Latin-1 range.\<close>

definition isWhiteSpace :: "char \<Rightarrow> bool" where
  "isWhiteSpace c \<longleftrightarrow> of_char c \<in> {9, 10, 11, 12, 13, 32, 160 :: nat}"

definition trim :: "string \<Rightarrow> string" where
  "trim s = rev (dropWhile isWhiteSpace (rev (dropWhile isWhiteSpace s)))"

text \<open>\<open>typeof v === 'string' && v.trim()\<close>: a string with a character that is not white space.\<close>

definition nonBlankString :: "jsval \<Rightarrow> string option" where
  "nonBlankString v =
     (case stringValue v of
        Some s \<Rightarrow> if trim s \<noteq> [] then Some s else None
      | None \<Rightarrow> None)"

text \<open>
  What the program takes from its host: \<open>Number(s)\<close> on a string, \<open>Date.now()\<close> and the
  identifier suffix drawn from \<open>Math.random()\<close> at the \<open>n\<close>-th element of a list being
  normalized, and the decimal rendering of a number inside a template string.
\<close>

record host =
  toNumber :: "string \<Rightarrow> jsnum"
  dateNow :: "nat \<Rightarrow> rat"
  randomSuffix :: "nat \<Rightarrow> string"
  numberToString :: "rat \<Rightarrow> string"

section \<open>The typed document\<close>

type_synonym assignments = "(string \<times> rat) list"

record Flight =
  f_id :: string
  f_link :: string
  f_description :: string
  f_startDate :: string
  f_endDate :: string
  pricePerPerson :: rat

record Accommodation =
  a_id :: string
  a_link :: string
  a_description :: string
  totalPrice :: rat
  a_startDate :: string
  a_endDate :: string

record ExtraCost =
  ec_description :: string
  ec_value :: rat

record BudgetAttempt =
  at_id :: string
  at_name :: string
  at_createdAt :: rat
  at_flightAssignments :: assignments
  at_selectedAccommodationId :: string
  at_totalCost :: rat
  at_remaining :: rat
  at_perPersonTotal :: rat

record BudgetEstimatorState =
  flightAssignments :: assignments
  selectedAccommodationId :: string
  fixedAttemptId :: string
  attempts :: "BudgetAttempt list"

record FlightDraft =
  fd_link :: "string option"
  fd_description :: "string option"
  fd_startDate :: "string option"
  fd_endDate :: "string option"
  fd_pricePerPerson :: "rat option"

record AccommodationDraft =
  ad_link :: "string option"
  ad_description :: "string option"
  ad_startDate :: "string option"
  ad_endDate :: "string option"
  ad_totalPrice :: "rat option"

record Destination =
  d_id :: string
  d_name :: string
  latitude :: rat
  longitude :: rat
  d_notes :: string
  extraCosts :: "ExtraCost list"
  budgetEstimator :: BudgetEstimatorState
  flightDraft :: FlightDraft
  accommodationDraft :: AccommodationDraft
  flights :: "Flight list"
  accommodations :: "Accommodation list"

record PlannerSettings =
  totalBudget :: rat
  peopleCount :: rat

section \<open>Budget snapshot calculator\<close>

record BudgetSnapshot =
  assignedPeopleCount :: rat
  flightCost :: rat
  accommodationCost :: rat
  extraCostsCost :: rat
  totalCost :: rat
  remaining :: rat
  perPersonTotal :: rat
  perPersonRemaining :: rat
  isOverAssigned :: bool

record SnapshotInput =
  si_flights :: "Flight list"
  si_accommodations :: "Accommodation list"
  si_flightAssignments :: assignments
  si_selectedAccommodationId :: string
  si_extraCosts :: "ExtraCost list"
  si_settings :: PlannerSettings

text \<open>The two reducers over \<open>Object.entries(flightAssignments)\<close> and the one over the extra costs.\<close>

definition flightCostStep :: "Flight list \<Rightarrow> rat \<Rightarrow> string \<times> rat \<Rightarrow> rat" where
  "flightCostStep fs tot e =
     (case e of (flightId, count) \<Rightarrow>
        (case find (\<lambda>item. f_id item = flightId) fs of
           Some flight \<Rightarrow> tot + pricePerPerson flight * count
         | None \<Rightarrow> tot + 0))"

definition assignedStep :: "Flight list \<Rightarrow> rat \<Rightarrow> string \<times> rat \<Rightarrow> rat" where
  "assignedStep fs tot e =
     (case e of (flightId, count) \<Rightarrow>
        if list_ex (\<lambda>item. f_id item = flightId) fs then tot + count else tot)"

definition calculateBudgetSnapshot :: "SnapshotInput \<Rightarrow> BudgetSnapshot" where
  "calculateBudgetSnapshot inp =
     (let accommodation =
            find (\<lambda>item. a_id item = si_selectedAccommodationId inp) (si_accommodations inp);
          accommodationCost' = (case accommodation of Some a \<Rightarrow> totalPrice a | None \<Rightarrow> 0);
          flightCost' = foldl (flightCostStep (si_flights inp)) 0 (si_flightAssignments inp);
          assignedPeopleCount' = foldl (assignedStep (si_flights inp)) 0 (si_flightAssignments inp);
          extraCostsCost' = foldl (\<lambda>tot extraCost. tot + ec_value extraCost) 0 (si_extraCosts inp);
          totalCost' = flightCost' + accommodationCost' + extraCostsCost';
          remaining' = totalBudget (si_settings inp) - totalCost';
          safePeopleCount = max 1 (peopleCount (si_settings inp))
      in \<lparr> assignedPeopleCount = assignedPeopleCount',
           flightCost = flightCost',
           accommodationCost = accommodationCost',
           extraCostsCost = extraCostsCost',
           totalCost = totalCost',
           remaining = remaining',
           perPersonTotal = totalCost' / safePeopleCount,
           perPersonRemaining = remaining' / safePeopleCount,
           isOverAssigned = (assignedPeopleCount' > peopleCount (si_settings inp)) \<rparr>)"

section \<open>Entity normalizers\<close>

datatype error = TypeError

text \<open>\<open>Array.prototype.map\<close> with a callback that may throw: the first exception ends the loop.\<close>

fun mapE :: "('a \<Rightarrow> error + 'b) \<Rightarrow> 'a list \<Rightarrow> error + 'b list" where
  "mapE f [] = Inr []"
| "mapE f (x # xs) =
     (case f x of
        Inl e \<Rightarrow> Inl e
      | Inr y \<Rightarrow> (case mapE f xs of Inl e \<Rightarrow> Inl e | Inr ys \<Rightarrow> Inr (y # ys)))"

fun elements :: "jsval \<Rightarrow> jsval list" where
  "elements (JArr xs) = xs"
| "elements v = []"

definition stringOrEmpty :: "jsval \<Rightarrow> string" where
  "stringOrEmpty v = (case stringValue v of Some s \<Rightarrow> s | None \<Rightarrow> '''')"

definition parseTimestamp :: "jsval \<Rightarrow> rat option" where
  "parseTimestamp v =
     (case finiteNumber v of
        None \<Rightarrow> None
      | Some r \<Rightarrow> if r \<le> 0 then None else Some r)"

text \<open>
  The callback of \<open>normalizeExtraCosts\<close>.  It reads \<open>extraCost.description\<close> with no guard
  in front, which throws a \<open>TypeError\<close> on \<open>null\<close> and \<open>undefined\<close>.
\<close>

definition normalizeExtraCost :: "jsval \<Rightarrow> error + ExtraCost" where
  "normalizeExtraCost extraCost =
     (if isNullish extraCost then Inl TypeError
      else Inr \<lparr> ec_description = stringOrEmpty (member extraCost ''description''),
                 ec_value =
                   (case finiteNumber (member extraCost ''value'') of
                      Some r \<Rightarrow> if r \<ge> 0 then r else 0
                    | None \<Rightarrow> 0) \<rparr>)"

definition keepExtraCost :: "ExtraCost \<Rightarrow> bool" where
  "keepExtraCost extraCost \<longleftrightarrow> trim (ec_description extraCost) \<noteq> [] \<or> ec_value extraCost > 0"

definition normalizeExtraCosts :: "jsval \<Rightarrow> error + ExtraCost list" where
  "normalizeExtraCosts extraCosts' =
     (if typeof extraCosts' = TNumber then
        Inr (case finiteNumber extraCosts' of
               Some r \<Rightarrow>
                 if r > 0 then [\<lparr> ec_description = ''General extra cost'', ec_value = r \<rparr>] else []
             | None \<Rightarrow> [])
      else if \<not> isArray extraCosts' then Inr []
      else (case mapE normalizeExtraCost (elements extraCosts') of
              Inl e \<Rightarrow> Inl e
            | Inr xs \<Rightarrow> Inr (filter keepExtraCost xs)))"

text \<open>
  \<open>acc[flightId] = v\<close> on an object held as its entry list is \<open>AList.update\<close>: an
  existing key keeps its place, a new key goes to the end.
\<close>

definition assignmentStep :: "assignments \<Rightarrow> string \<times> jsval \<Rightarrow> assignments" where
  "assignmentStep acc e =
     (case e of (flightId, count) \<Rightarrow>
        (case finiteNumber count of
           Some c \<Rightarrow> if c \<ge> 0 then AList.update flightId (of_int \<lfloor>c\<rfloor>) acc else acc
         | None \<Rightarrow> acc))"

definition normalizeFlightAssignments :: "jsval \<Rightarrow> assignments" where
  "normalizeFlightAssignments flightAssignments' =
     (if notPlainObject flightAssignments' then []
      else foldl assignmentStep [] (entries flightAssignments'))"

definition finiteOr :: "rat \<Rightarrow> jsval \<Rightarrow> rat" where
  "finiteOr d v = (case finiteNumber v of Some r \<Rightarrow> r | None \<Rightarrow> d)"

definition normalizeBudgetAttempt :: "host \<Rightarrow> nat \<Rightarrow> jsval \<Rightarrow> BudgetAttempt option" where
  "normalizeBudgetAttempt h i attempt =
     (if notPlainObject attempt then None
      else
        let createdAt = finiteOr (dateNow h i) (member attempt ''createdAt'');
            totalCost' = finiteOr 0 (member attempt ''totalCost'');
            remaining' = finiteOr 0 (member attempt ''remaining'');
            perPersonTotal' = finiteOr 0 (member attempt ''perPersonTotal'')
        in Some \<lparr> at_id =
                     (case nonBlankString (member attempt ''id'') of
                        Some s \<Rightarrow> s
                      | None \<Rightarrow> numberToString h createdAt @ ''-'' @ randomSuffix h i),
                   at_name =
                     (case nonBlankString (member attempt ''name'') of
                        Some s \<Rightarrow> s | None \<Rightarrow> ''Saved attempt''),
                   at_createdAt = createdAt,
                   at_flightAssignments =
                     normalizeFlightAssignments (member attempt ''flightAssignments''),
                   at_selectedAccommodationId =
                     stringOrEmpty (member attempt ''selectedAccommodationId''),
                   at_totalCost = totalCost',
                   at_remaining = remaining',
                   at_perPersonTotal = perPersonTotal' \<rparr>)"

definition normalizeBudgetAttempts :: "host \<Rightarrow> jsval \<Rightarrow> BudgetAttempt list" where
  "normalizeBudgetAttempts h attempts' =
     (if \<not> isArray attempts' then []
      else take 40
             (List.map_filter (\<lambda>(i, attempt). normalizeBudgetAttempt h i attempt)
                (enumerate 0 (elements attempts'))))"

text \<open>\<open>xs[0]?.id || ''\<close>\<close>

fun firstIdOrEmpty :: "BudgetAttempt list \<Rightarrow> string" where
  "firstIdOrEmpty [] = ''''"
| "firstIdOrEmpty (a # as) = (if at_id a \<noteq> [] then at_id a else '''')"

text \<open>\<open>xs.find(a => a.id === wanted) ?? xs[0]\<close>\<close>

definition preferredAttempt :: "string \<Rightarrow> BudgetAttempt list \<Rightarrow> BudgetAttempt option" where
  "preferredAttempt wanted xs =
     (case find (\<lambda>attempt. at_id attempt = wanted) xs of
        Some a \<Rightarrow> Some a
      | None \<Rightarrow> (case xs of [] \<Rightarrow> None | a # _ \<Rightarrow> Some a))"

definition normalizeBudgetEstimator :: "host \<Rightarrow> jsval \<Rightarrow> BudgetEstimatorState" where
  "normalizeBudgetEstimator h budgetEstimator' =
     (let attempts' = normalizeBudgetAttempts h (member budgetEstimator' ''attempts'');
          fixedAttemptId' = stringOrEmpty (member budgetEstimator' ''fixedAttemptId'');
          normalizedAttempts = (case preferredAttempt fixedAttemptId' attempts' of
                                  Some a \<Rightarrow> [a] | None \<Rightarrow> []);
          normalizedFixedAttemptId = firstIdOrEmpty normalizedAttempts
      in \<lparr> flightAssignments =
             normalizeFlightAssignments (member budgetEstimator' ''flightAssignments''),
           selectedAccommodationId =
             stringOrEmpty (member budgetEstimator' ''selectedAccommodationId''),
           fixedAttemptId = normalizedFixedAttemptId,
           attempts = normalizedAttempts \<rparr>)"

definition nonNegative :: "jsval \<Rightarrow> rat option" where
  "nonNegative v =
     (case finiteNumber v of
        Some r \<Rightarrow> if r \<ge> 0 then Some r else None
      | None \<Rightarrow> None)"

definition normalizeFlightDraft :: "jsval \<Rightarrow> FlightDraft" where
  "normalizeFlightDraft flightDraft' =
     (if notPlainObject flightDraft' then
        \<lparr> fd_link = None, fd_description = None, fd_startDate = None, fd_endDate = None,
          fd_pricePerPerson = None \<rparr>
      else
        \<lparr> fd_link = stringValue (member flightDraft' ''link''),
          fd_description = stringValue (member flightDraft' ''description''),
          fd_startDate = stringValue (member flightDraft' ''startDate''),
          fd_endDate = stringValue (member flightDraft' ''endDate''),
          fd_pricePerPerson = nonNegative (member flightDraft' ''pricePerPerson'') \<rparr>)"

definition normalizeAccommodationDraft :: "jsval \<Rightarrow> AccommodationDraft" where
  "normalizeAccommodationDraft accommodationDraft' =
     (if notPlainObject accommodationDraft' then
        \<lparr> ad_link = None, ad_description = None, ad_startDate = None, ad_endDate = None,
          ad_totalPrice = None \<rparr>
      else
        \<lparr> ad_link = stringValue (member accommodationDraft' ''link''),
          ad_description = stringValue (member accommodationDraft' ''description''),
          ad_startDate = stringValue (member accommodationDraft' ''startDate''),
          ad_endDate = stringValue (member accommodationDraft' ''endDate''),
          ad_totalPrice = nonNegative (member accommodationDraft' ''totalPrice'') \<rparr>)"

text \<open>
  \<open>LegacyDestination\<close>: the typed fields of a destination next to the five fields that
  are still \<open>unknown\<close>.
\<close>

record LegacyDestination =
  ld_id :: string
  ld_name :: string
  ld_latitude :: rat
  ld_longitude :: rat
  ld_notes :: jsval
  ld_extraCosts :: jsval
  ld_budgetEstimator :: jsval
  ld_flightDraft :: jsval
  ld_accommodationDraft :: jsval
  ld_flights :: "Flight list"
  ld_accommodations :: "Accommodation list"

definition normalizeDestination :: "host \<Rightarrow> LegacyDestination \<Rightarrow> error + Destination" where
  "normalizeDestination h destination =
     (case normalizeExtraCosts (ld_extraCosts destination) of
        Inl e \<Rightarrow> Inl e
      | Inr extraCosts' \<Rightarrow>
          Inr \<lparr> d_id = ld_id destination,
                d_name = ld_name destination,
                latitude = ld_latitude destination,
                longitude = ld_longitude destination,
                d_notes = stringOrEmpty (ld_notes destination),
                extraCosts = extraCosts',
                budgetEstimator = normalizeBudgetEstimator h (ld_budgetEstimator destination),
                flightDraft = normalizeFlightDraft (ld_flightDraft destination),
                accommodationDraft =
                  normalizeAccommodationDraft (ld_accommodationDraft destination),
                flights = ld_flights destination,
                accommodations = ld_accommodations destination \<rparr>)"

definition parseNumberValue :: "host \<Rightarrow> jsval \<Rightarrow> rat option" where
  "parseNumberValue h v =
     (case finiteNumber v of
        Some r \<Rightarrow> Some r
      | None \<Rightarrow>
          (case stringValue v of
             Some s \<Rightarrow>
               if trim s \<noteq> [] then
                 (case toNumber h s of Fin parsed \<Rightarrow> Some parsed | _ \<Rightarrow> None)
               else None
           | None \<Rightarrow> None))"

text \<open>\<open>parsedPrice !== null && parsedPrice >= 0 ? parsedPrice : 0\<close>\<close>

definition priceOrZero :: "rat option \<Rightarrow> rat" where
  "priceOrZero parsedPrice =
     (case parsedPrice of Some p \<Rightarrow> if p \<ge> 0 then p else 0 | None \<Rightarrow> 0)"

definition normalizeFlightItem :: "host \<Rightarrow> jsval \<Rightarrow> Flight option" where
  "normalizeFlightItem h flight =
     (if notPlainObject flight then None
      else case nonBlankString (member flight ''id'') of
        None \<Rightarrow> None
      | Some flightId \<Rightarrow>
          let parsedPrice = parseNumberValue h (member flight ''pricePerPerson'')
          in Some \<lparr> f_id = flightId,
                     f_link = stringOrEmpty (member flight ''link''),
                     f_description = stringOrEmpty (member flight ''description''),
                     f_startDate = stringOrEmpty (member flight ''startDate''),
                     f_endDate = stringOrEmpty (member flight ''endDate''),
                     pricePerPerson = priceOrZero parsedPrice \<rparr>)"

definition normalizeFlightList :: "host \<Rightarrow> jsval \<Rightarrow> Flight list" where
  "normalizeFlightList h flights' =
     (if \<not> isArray flights' then []
      else List.map_filter (normalizeFlightItem h) (elements flights'))"

definition normalizeAccommodationItem :: "host \<Rightarrow> jsval \<Rightarrow> Accommodation option" where
  "normalizeAccommodationItem h accommodation =
     (if notPlainObject accommodation then None
      else case nonBlankString (member accommodation ''id'') of
        None \<Rightarrow> None
      | Some accommodationId \<Rightarrow>
          let parsedPrice = parseNumberValue h (member accommodation ''totalPrice'')
          in Some \<lparr> a_id = accommodationId,
                     a_link = stringOrEmpty (member accommodation ''link''),
                     a_description = stringOrEmpty (member accommodation ''description''),
                     totalPrice = priceOrZero parsedPrice,
                     a_startDate = stringOrEmpty (member accommodation ''startDate''),
                     a_endDate = stringOrEmpty (member accommodation ''endDate'') \<rparr>)"

definition normalizeAccommodationList :: "host \<Rightarrow> jsval \<Rightarrow> Accommodation list" where
  "normalizeAccommodationList h accommodations' =
     (if \<not> isArray accommodations' then []
      else List.map_filter (normalizeAccommodationItem h) (elements accommodations'))"

definition normalizeDestinationCandidate :: "host \<Rightarrow> jsval \<Rightarrow> error + Destination option" where
  "normalizeDestinationCandidate h candidate =
     (if notPlainObject candidate then Inr None
      else case (nonBlankString (member candidate ''id''),
                 nonBlankString (member candidate ''name'')) of
        (Some id', Some name') \<Rightarrow>
          (case (parseNumberValue h (member candidate ''latitude''),
                 parseNumberValue h (member candidate ''longitude'')) of
             (Some latitude', Some longitude') \<Rightarrow>
               (case normalizeDestination h
                       \<lparr> ld_id = id', ld_name = name',
                         ld_latitude = latitude', ld_longitude = longitude',
                         ld_notes = member candidate ''notes'',
                         ld_extraCosts = member candidate ''extraCosts'',
                         ld_budgetEstimator = member candidate ''budgetEstimator'',
                         ld_flightDraft = member candidate ''flightDraft'',
                         ld_accommodationDraft = member candidate ''accommodationDraft'',
                         ld_flights = normalizeFlightList h (member candidate ''flights''),
                         ld_accommodations =
                           normalizeAccommodationList h (member candidate ''accommodations'') \<rparr> of
                  Inl e \<Rightarrow> Inl e
                | Inr d \<Rightarrow> Inr (Some d))
           | _ \<Rightarrow> Inr None)
      | _ \<Rightarrow> Inr None)"

definition DEFAULT_SETTINGS :: PlannerSettings where
  "DEFAULT_SETTINGS = \<lparr> totalBudget = 5000, peopleCount = 5 \<rparr>"

definition normalizeSettings :: "jsval \<Rightarrow> PlannerSettings \<Rightarrow> PlannerSettings" where
  "normalizeSettings candidate fallback =
     (if notPlainObject candidate then fallback
      else
        \<lparr> totalBudget =
            (case finiteNumber (member candidate ''totalBudget'') of
               Some b \<Rightarrow> if b \<ge> 0 then b else totalBudget fallback
             | None \<Rightarrow> totalBudget fallback),
          peopleCount =
            (case finiteNumber (member candidate ''peopleCount'') of
               Some p \<Rightarrow> if p > 0 then of_int \<lfloor>p\<rfloor> else peopleCount fallback
             | None \<Rightarrow> peopleCount fallback) \<rparr>)"

record ParsedPayload =
  pp_destinations :: "Destination list"
  pp_settings :: PlannerSettings
  pp_remoteUpdatedAt :: "rat option"

definition parseTripSyncPayload ::
  "host \<Rightarrow> jsval \<Rightarrow> PlannerSettings \<Rightarrow> error + ParsedPayload option" where
  "parseTripSyncPayload h payload fallbackSettings =
     (if notPlainObject payload then Inr None
      else if \<not> isArray (member payload ''destinations'') then Inr None
      else
        (case mapE (normalizeDestinationCandidate h) (elements (member payload ''destinations'')) of
           Inl e \<Rightarrow> Inl e
         | Inr candidates \<Rightarrow>
             let destinations = List.map_filter (\<lambda>d. d) candidates in
             if length (elements (member payload ''destinations'')) > 0 \<and> length destinations = 0
             then Inr None
             else Inr (Some \<lparr> pp_destinations = destinations,
                               pp_settings =
                                 normalizeSettings (member payload ''settings'') fallbackSettings,
                               pp_remoteUpdatedAt =
                                 parseTimestamp (member (member payload ''meta'') ''updatedAt'') \<rparr>)))"

section \<open>Document reconciler\<close>

text \<open>
  The reducer of \<open>handleFlightsChange\<close>; \<open>validFlightIds\<close> is the \<open>Set\<close> built from the
  ids of the new flights, held as the list of those ids.
\<close>

definition restrictStep :: "string list \<Rightarrow> assignments \<Rightarrow> string \<times> rat \<Rightarrow> assignments" where
  "restrictStep validFlightIds acc e =
     (case e of (flightId, count) \<Rightarrow>
        if flightId \<in> set validFlightIds then AList.update flightId count acc else acc)"

definition flightsChangeAttempt ::
  "PlannerSettings \<Rightarrow> Flight list \<Rightarrow> Destination \<Rightarrow> BudgetAttempt \<Rightarrow> BudgetAttempt" where
  "flightsChangeAttempt settings flights' currentDestination attempt =
     (let validFlightIds = map f_id flights';
          nextAttemptAssignments =
            foldl (restrictStep validFlightIds) [] (at_flightAssignments attempt);
          nextSnapshot = calculateBudgetSnapshot
            \<lparr> si_flights = flights',
              si_accommodations = accommodations currentDestination,
              si_flightAssignments = nextAttemptAssignments,
              si_selectedAccommodationId = at_selectedAccommodationId attempt,
              si_extraCosts = extraCosts currentDestination,
              si_settings = settings \<rparr>
      in attempt \<lparr> at_flightAssignments := nextAttemptAssignments,
                   at_totalCost := totalCost nextSnapshot,
                   at_remaining := remaining nextSnapshot,
                   at_perPersonTotal := perPersonTotal nextSnapshot \<rparr>)"

text \<open>The updater that \<open>handleFlightsChange\<close> hands to \<open>commitUpdate\<close>.\<close>

definition handleFlightsChange ::
  "PlannerSettings \<Rightarrow> Flight list \<Rightarrow> Destination \<Rightarrow> Destination" where
  "handleFlightsChange settings flights' currentDestination =
     (let validFlightIds = map f_id flights';
          nextFlightAssignments =
            foldl (restrictStep validFlightIds) []
              (flightAssignments (budgetEstimator currentDestination));
          nextAttempts =
            map (flightsChangeAttempt settings flights' currentDestination)
              (take 1 (attempts (budgetEstimator currentDestination)));
          fixedAttemptId' = firstIdOrEmpty nextAttempts
      in currentDestination
           \<lparr> flights := flights',
             budgetEstimator := (budgetEstimator currentDestination)
               \<lparr> flightAssignments := nextFlightAssignments,
                 attempts := nextAttempts,
                 fixedAttemptId := fixedAttemptId' \<rparr> \<rparr>)"

definition handleFlightAssignmentsChange :: "assignments \<Rightarrow> Destination \<Rightarrow> Destination" where
  "handleFlightAssignmentsChange flightAssignments' currentDestination =
     currentDestination
       \<lparr> budgetEstimator := (budgetEstimator currentDestination)
           \<lparr> flightAssignments := flightAssignments' \<rparr> \<rparr>"

definition handleAttemptsChange :: "BudgetAttempt list \<Rightarrow> Destination \<Rightarrow> Destination" where
  "handleAttemptsChange attempts' currentDestination =
     (let nextAttempts = take 1 attempts'
      in currentDestination
           \<lparr> budgetEstimator := (budgetEstimator currentDestination)
               \<lparr> attempts := nextAttempts,
                 fixedAttemptId := firstIdOrEmpty nextAttempts \<rparr> \<rparr>)"

definition handleFixedAttemptIdChange :: "string \<Rightarrow> Destination \<Rightarrow> Destination" where
  "handleFixedAttemptIdChange fixedAttemptId' currentDestination =
     currentDestination
       \<lparr> budgetEstimator := (budgetEstimator currentDestination)
           \<lparr> fixedAttemptId :=
               (if fixedAttemptId' \<noteq> [] \<and>
                   list_ex (\<lambda>attempt. at_id attempt = fixedAttemptId')
                     (attempts (budgetEstimator currentDestination))
                then fixedAttemptId' else '''') \<rparr> \<rparr>"

section \<open>Budget calculator actions\<close>

text \<open>
  The calculator is rendered from one destination (its props) and reports through
  callbacks; each callback queues an updater that runs on the destination current at
  that moment.  An action is therefore a function of the rendered destination that
  yields the new current one.
\<close>

text \<open>
  The object \<open>handleAssignmentChange\<close> passes to \<open>onFlightAssignmentsChange\<close>;
  \<open>None\<close> when it returns without calling it.
\<close>

definition nextAssignments :: "assignments \<Rightarrow> string \<Rightarrow> rat \<Rightarrow> assignments option" where
  "nextAssignments flightAssignments' flightId count =
     (if count < 0 then None
      else if count = 0 then Some (AList.delete flightId flightAssignments')
      else Some (AList.update flightId count flightAssignments'))"

definition handleAssignmentChange ::
  "Destination \<Rightarrow> string \<Rightarrow> rat \<Rightarrow> Destination \<Rightarrow> Destination" where
  "handleAssignmentChange rendered flightId count currentDestination =
     (case nextAssignments (flightAssignments (budgetEstimator rendered)) flightId count of
        None \<Rightarrow> currentDestination
      | Some next \<Rightarrow> handleFlightAssignmentsChange next currentDestination)"

definition renderedSnapshot :: "PlannerSettings \<Rightarrow> Destination \<Rightarrow> BudgetSnapshot" where
  "renderedSnapshot settings rendered =
     calculateBudgetSnapshot
       \<lparr> si_flights = flights rendered,
         si_accommodations = accommodations rendered,
         si_flightAssignments = flightAssignments (budgetEstimator rendered),
         si_selectedAccommodationId = selectedAccommodationId (budgetEstimator rendered),
         si_extraCosts = extraCosts rendered,
         si_settings = settings \<rparr>"

definition savedAttempt :: "Destination \<Rightarrow> BudgetAttempt option" where
  "savedAttempt rendered =
     preferredAttempt (fixedAttemptId (budgetEstimator rendered))
       (attempts (budgetEstimator rendered))"

definition updatedAttempt :: "PlannerSettings \<Rightarrow> rat \<Rightarrow> Destination \<Rightarrow> BudgetAttempt \<Rightarrow> BudgetAttempt" where
  "updatedAttempt settings now rendered saved =
     saved \<lparr> at_name := ''Saved baseline'',
             at_createdAt := now,
             at_flightAssignments := flightAssignments (budgetEstimator rendered),
             at_selectedAccommodationId := selectedAccommodationId (budgetEstimator rendered),
             at_totalCost := totalCost (renderedSnapshot settings rendered),
             at_remaining := remaining (renderedSnapshot settings rendered),
             at_perPersonTotal := perPersonTotal (renderedSnapshot settings rendered) \<rparr>"

definition replaceSavedWithCurrent ::
  "PlannerSettings \<Rightarrow> rat \<Rightarrow> Destination \<Rightarrow> Destination \<Rightarrow> Destination" where
  "replaceSavedWithCurrent settings now rendered currentDestination =
     (case savedAttempt rendered of
        None \<Rightarrow> currentDestination
      | Some saved \<Rightarrow>
          handleFixedAttemptIdChange (at_id (updatedAttempt settings now rendered saved))
            (handleAttemptsChange [updatedAttempt settings now rendered saved]
               currentDestination))"

section \<open>Typed values seen as unknown\<close>

text \<open>
  A typed record is a JavaScript object; handing it to a normalizer again, or writing
  it to the remote store, looks at it as a plain value.  An absent field of a draft is
  an absent property.
\<close>

definition js_of_assignments :: "assignments \<Rightarrow> jsval" where
  "js_of_assignments m = JObj (map (\<lambda>e. (fst e, JNum (Fin (snd e)))) m)"

definition js_of_flight :: "Flight \<Rightarrow> jsval" where
  "js_of_flight f =
     JObj [(''id'', JStr (f_id f)), (''link'', JStr (f_link f)),
           (''description'', JStr (f_description f)), (''startDate'', JStr (f_startDate f)),
           (''endDate'', JStr (f_endDate f)), (''pricePerPerson'', JNum (Fin (pricePerPerson f)))]"

definition js_of_accommodation :: "Accommodation \<Rightarrow> jsval" where
  "js_of_accommodation a =
     JObj [(''id'', JStr (a_id a)), (''link'', JStr (a_link a)),
           (''description'', JStr (a_description a)), (''startDate'', JStr (a_startDate a)),
           (''endDate'', JStr (a_endDate a)), (''totalPrice'', JNum (Fin (totalPrice a)))]"

definition js_of_extraCost :: "ExtraCost \<Rightarrow> jsval" where
  "js_of_extraCost e =
     JObj [(''description'', JStr (ec_description e)), (''value'', JNum (Fin (ec_value e)))]"

definition js_of_attempt :: "BudgetAttempt \<Rightarrow> jsval" where
  "js_of_attempt a =
     JObj [(''id'', JStr (at_id a)), (''name'', JStr (at_name a)),
           (''createdAt'', JNum (Fin (at_createdAt a))),
           (''flightAssignments'', js_of_assignments (at_flightAssignments a)),
           (''selectedAccommodationId'', JStr (at_selectedAccommodationId a)),
           (''totalCost'', JNum (Fin (at_totalCost a))),
           (''remaining'', JNum (Fin (at_remaining a))),
           (''perPersonTotal'', JNum (Fin (at_perPersonTotal a)))]"

definition js_of_estimator :: "BudgetEstimatorState \<Rightarrow> jsval" where
  "js_of_estimator b =
     JObj [(''flightAssignments'', js_of_assignments (flightAssignments b)),
           (''selectedAccommodationId'', JStr (selectedAccommodationId b)),
           (''fixedAttemptId'', JStr (fixedAttemptId b)),
           (''attempts'', JArr (map js_of_attempt (attempts b)))]"

definition js_field :: "string \<Rightarrow> ('a \<Rightarrow> jsval) \<Rightarrow> 'a option \<Rightarrow> (string \<times> jsval) list" where
  "js_field k f v = (case v of Some x \<Rightarrow> [(k, f x)] | None \<Rightarrow> [])"

definition js_of_flightDraft :: "FlightDraft \<Rightarrow> jsval" where
  "js_of_flightDraft d =
     JObj (js_field ''link'' JStr (fd_link d) @ js_field ''description'' JStr (fd_description d)
           @ js_field ''startDate'' JStr (fd_startDate d) @ js_field ''endDate'' JStr (fd_endDate d)
           @ js_field ''pricePerPerson'' (\<lambda>p. JNum (Fin p)) (fd_pricePerPerson d))"

definition js_of_accommodationDraft :: "AccommodationDraft \<Rightarrow> jsval" where
  "js_of_accommodationDraft d =
     JObj (js_field ''link'' JStr (ad_link d) @ js_field ''description'' JStr (ad_description d)
           @ js_field ''startDate'' JStr (ad_startDate d) @ js_field ''endDate'' JStr (ad_endDate d)
           @ js_field ''totalPrice'' (\<lambda>p. JNum (Fin p)) (ad_totalPrice d))"

definition js_of_destination :: "Destination \<Rightarrow> jsval" where
  "js_of_destination d =
     JObj [(''id'', JStr (d_id d)), (''name'', JStr (d_name d)),
           (''latitude'', JNum (Fin (latitude d))), (''longitude'', JNum (Fin (longitude d))),
           (''notes'', JStr (d_notes d)),
           (''extraCosts'', JArr (map js_of_extraCost (extraCosts d))),
           (''budgetEstimator'', js_of_estimator (budgetEstimator d)),
           (''flightDraft'', js_of_flightDraft (flightDraft d)),
           (''accommodationDraft'', js_of_accommodationDraft (accommodationDraft d)),
           (''flights'', JArr (map js_of_flight (flights d))),
           (''accommodations'', JArr (map js_of_accommodation (accommodations d)))]"

definition js_of_settings :: "PlannerSettings \<Rightarrow> jsval" where
  "js_of_settings s =
     JObj [(''totalBudget'', JNum (Fin (totalBudget s))),
           (''peopleCount'', JNum (Fin (peopleCount s)))]"

text \<open>The root document \<open>{destinations, settings}\<close>.\<close>

definition js_of_document :: "Destination list \<Rightarrow> PlannerSettings \<Rightarrow> jsval" where
  "js_of_document ds s =
     JObj [(''destinations'', JArr (map js_of_destination ds)), (''settings'', js_of_settings s)]"

section \<open>Trip sync: push\<close>

datatype SyncStatusKind = Neutral | Success | Warning | Error

record SyncStatus =
  kind :: SyncStatusKind
  message :: string

text \<open>
  The state \<open>handlePushToTrip\<close> closes over, with the trip code already normalized
  (\<open>normalizedTripCode\<close>), and the remote store as a map from trip code to the document at
  \<open>trips/<code>\<close>.
\<close>

record AppState =
  st_destinations :: "Destination list"
  st_settings :: PlannerSettings
  normalizedTripCode :: string
  lastKnownRemoteByCode :: "(string \<times> rat) list"
  lastLocalPushByCode :: "(string \<times> rat) list"
  syncStatus :: SyncStatus
  isPushing :: bool
  latestRemoteUpdatedAt :: "rat option"
  syncClientId :: string

type_synonym remote = "string \<Rightarrow> jsval option"

text \<open>
  What one run of the handler meets outside the program: whether sync is configured,
  whether the remote read or write fails, what the user answers if \<open>window.confirm\<close> is
  shown, and what \<open>Date.now()\<close> reads.
\<close>

record PushRun =
  syncAvailable :: bool
  readFails :: bool
  writeFails :: bool
  userConfirms :: bool
  pushTime :: rat

datatype effect = RemoteRead string | ConfirmShown | RemoteWrite string jsval

definition TRIP_CODE_MIN_LENGTH :: nat where
  "TRIP_CODE_MIN_LENGTH = 4"

definition hasValidTripCode :: "AppState \<Rightarrow> bool" where
  "hasValidTripCode st \<longleftrightarrow> length (normalizedTripCode st) \<ge> TRIP_CODE_MIN_LENGTH"

text \<open>\<open>lastKnownRemoteByCode[normalizedTripCode] ?? 0\<close>\<close>

definition knownRemoteUpdatedAt :: "AppState \<Rightarrow> rat" where
  "knownRemoteUpdatedAt st =
     (case map_of (lastKnownRemoteByCode st) (normalizedTripCode st) of
        Some t \<Rightarrow> t | None \<Rightarrow> 0)"

text \<open>\<open>parseTimestamp(remotePayload?.meta?.updatedAt)\<close>, the payload being \<open>null\<close> when nothing is stored.\<close>

definition remoteUpdatedAt :: "jsval option \<Rightarrow> rat option" where
  "remoteUpdatedAt snapshot =
     parseTimestamp
       (case snapshot of
          None \<Rightarrow> JUndefined
        | Some remotePayload \<Rightarrow> member (member remotePayload ''meta'') ''updatedAt'')"

definition pushPayload :: "AppState \<Rightarrow> rat \<Rightarrow> jsval" where
  "pushPayload st updatedAt =
     JObj [(''destinations'', JArr (map js_of_destination (st_destinations st))),
           (''settings'', js_of_settings (st_settings st)),
           (''meta'', JObj [(''updatedAt'', JNum (Fin updatedAt)),
                           (''updatedBy'', JStr (syncClientId st))])]"

definition needsConfirmation :: "AppState \<Rightarrow> jsval option \<Rightarrow> bool" where
  "needsConfirmation st snapshot =
     (case remoteUpdatedAt snapshot of
        None \<Rightarrow> False
      | Some t \<Rightarrow> t > knownRemoteUpdatedAt st)"

text \<open>
  One run of \<open>handlePushToTrip\<close> as a single transition: the new state, the new remote
  store and the effects in the order they happen.  Nobody else writes the store between
  the handler's read and its write.  A failing read or write throws into the \<open>catch\<close>
  block and leaves the store as it was; \<open>finally\<close> clears \<open>isPushing\<close>.
\<close>

definition handlePushToTrip :: "PushRun \<Rightarrow> AppState \<Rightarrow> remote \<Rightarrow> AppState \<times> remote \<times> effect list" where
  "handlePushToTrip run st db =
     (if \<not> syncAvailable run then
        (st \<lparr> syncStatus := \<lparr> kind = Error,
                 message = ''Trip sync is not configured in this environment.'' \<rparr> \<rparr>, db, [])
      else if \<not> hasValidTripCode st then
        (st \<lparr> syncStatus := \<lparr> kind = Warning,
                 message = ''Trip code must be at least 4 characters.'' \<rparr> \<rparr>, db, [])
      else
        let code = normalizedTripCode st;
            failed = \<lparr> kind = Error, message = ''Failed to push trip data. Please try again.'' \<rparr>
        in if readFails run then
             (st \<lparr> syncStatus := failed, isPushing := False \<rparr>, db, [RemoteRead code])
           else
             let snapshot = db code;
                 st1 = st \<lparr> latestRemoteUpdatedAt := remoteUpdatedAt snapshot \<rparr>;
                 asked = (if needsConfirmation st snapshot then [ConfirmShown] else [])
             in if needsConfirmation st snapshot \<and> \<not> userConfirms run then
                  (st1 \<lparr> syncStatus := \<lparr> kind = Warning,
                            message = ''Push canceled. Pull latest remote changes before pushing.'' \<rparr>,
                         isPushing := False \<rparr>,
                   db, RemoteRead code # asked)
                else
                  let updatedAt = pushTime run;
                      payload = pushPayload st updatedAt
                  in if writeFails run then
                       (st1 \<lparr> syncStatus := failed, isPushing := False \<rparr>, db,
                        RemoteRead code # asked @ [RemoteWrite code payload])
                     else
                       (st1 \<lparr> lastKnownRemoteByCode :=
                                 AList.update code updatedAt (lastKnownRemoteByCode st1),
                               lastLocalPushByCode :=
                                 AList.update code updatedAt (lastLocalPushByCode st1),
                               latestRemoteUpdatedAt := Some updatedAt,
                               syncStatus := \<lparr> kind = Success,
                                 message = ''Pushed local plan to '' @ code @ ''.'' \<rparr>,
                               isPushing := False \<rparr>,
                        db(code \<mapsto> payload),
                        RemoteRead code # asked @ [RemoteWrite code payload]))"

section \<open>Reference terms and sample data\<close>

text \<open>
  What one assignment entry costs according to the specification: the price per person
  of the flight the key names times the count, and nothing when no flight has that id.
\<close>

definition assignmentCost :: "Flight list \<Rightarrow> string \<times> rat \<Rightarrow> rat" where
  "assignmentCost fs e =
     (case find (\<lambda>item. f_id item = fst e) fs of
        Some flight \<Rightarrow> pricePerPerson flight * snd e
      | None \<Rightarrow> 0)"

definition mkFlight :: "string \<Rightarrow> rat \<Rightarrow> Flight" where
  "mkFlight flightId price =
     \<lparr> f_id = flightId, f_link = '''', f_description = '''', f_startDate = '''',
       f_endDate = '''', pricePerPerson = price \<rparr>"

definition mkAccommodation :: "string \<Rightarrow> rat \<Rightarrow> Accommodation" where
  "mkAccommodation accommodationId price =
     \<lparr> a_id = accommodationId, a_link = '''', a_description = '''', totalPrice = price,
       a_startDate = '''', a_endDate = '''' \<rparr>"

text \<open>The first testable property of the specification, with one dangling assignment added.\<close>

definition sampleInput :: SnapshotInput where
  "sampleInput =
     \<lparr> si_flights = [mkFlight ''f1'' 100],
       si_accommodations = [mkAccommodation ''a1'' 500],
       si_flightAssignments = [(''f1'', 3), (''gone'', 4)],
       si_selectedAccommodationId = ''a1'',
       si_extraCosts = [\<lparr> ec_description = ''visa'', ec_value = 50 \<rparr>],
       si_settings = \<lparr> totalBudget = 1000, peopleCount = 5 \<rparr> \<rparr>"

text \<open>An assignment map restricted to the keys that are ids of the given flights.\<close>

definition restrictTo :: "Flight list \<Rightarrow> assignments \<Rightarrow> assignments" where
  "restrictTo fs m = filter (\<lambda>e. fst e \<in> f_id ` set fs) m"

text \<open>
  The snapshot the specification asks for when the flights of a destination are replaced:
  over the new flights, the destination's accommodations and extra costs, the attempt's
  restricted assignments and the attempt's own selected accommodation.
\<close>

definition attemptSnapshot ::
  "PlannerSettings \<Rightarrow> Flight list \<Rightarrow> Destination \<Rightarrow> BudgetAttempt \<Rightarrow> BudgetSnapshot" where
  "attemptSnapshot settings fs d a =
     calculateBudgetSnapshot
       \<lparr> si_flights = fs,
         si_accommodations = accommodations d,
         si_flightAssignments = restrictTo fs (at_flightAssignments a),
         si_selectedAccommodationId = at_selectedAccommodationId a,
         si_extraCosts = extraCosts d,
         si_settings = settings \<rparr>"

text \<open>
  An assignment object has each key once; that is all \<open>Record<string, number>\<close> promises
  and all the properties below ask of a typed destination.
\<close>

definition wellFormedAssignments :: "Destination \<Rightarrow> bool" where
  "wellFormedAssignments d \<longleftrightarrow>
     distinct (map fst (flightAssignments (budgetEstimator d))) \<and>
     list_all (\<lambda>a. distinct (map fst (at_flightAssignments a))) (attempts (budgetEstimator d))"

definition sampleSettings :: PlannerSettings where
  "sampleSettings = \<lparr> totalBudget = 1000, peopleCount = 5 \<rparr>"

definition sampleAttempt :: BudgetAttempt where
  "sampleAttempt =
     \<lparr> at_id = ''att1'', at_name = ''Saved baseline'', at_createdAt = 1000,
       at_flightAssignments = [(''f1'', 2), (''f2'', 1)],
       at_selectedAccommodationId = ''a1'',
       at_totalCost = 950, at_remaining = 50, at_perPersonTotal = 190 \<rparr>"

definition sampleDestination :: Destination where
  "sampleDestination =
     \<lparr> d_id = ''d1'', d_name = ''Lisbon'', latitude = 38, longitude = -9, d_notes = '''',
       extraCosts = [\<lparr> ec_description = ''visa'', ec_value = 50 \<rparr>],
       budgetEstimator =
         \<lparr> flightAssignments = [(''f1'', 2), (''f2'', 1)],
           selectedAccommodationId = ''a1'',
           fixedAttemptId = ''att1'',
           attempts = [sampleAttempt] \<rparr>,
       flightDraft = \<lparr> fd_link = None, fd_description = None, fd_startDate = None,
                       fd_endDate = None, fd_pricePerPerson = None \<rparr>,
       accommodationDraft = \<lparr> ad_link = None, ad_description = None, ad_startDate = None,
                              ad_endDate = None, ad_totalPrice = None \<rparr>,
       flights = [mkFlight ''f1'' 100, mkFlight ''f2'' 200],
       accommodations = [mkAccommodation ''a1'' 500] \<rparr>"

text \<open>
  A host for the examples.  Its \<open>Number\<close> agrees with the engine's on strings of ASCII
  digits and on strings without a digit, sign, dot or white space (which are not
  numbers); the examples use no other string.  Its clock reads one instant, which is
  the only number it has to render.
\<close>

definition sampleToNumber :: "string \<Rightarrow> jsnum" where
  "sampleToNumber s =
     (if s \<noteq> [] \<and> list_all (\<lambda>c. c \<in> set ''0123456789'') s
      then Fin (of_nat (foldl (\<lambda>n c. 10 * n + (of_char c - 48)) 0 s))
      else NaN)"

definition sampleHost :: host where
  "sampleHost =
     \<lparr> toNumber = sampleToNumber,
       dateNow = (\<lambda>i. 1700000000000),
       randomSuffix = (\<lambda>i. ''k3x9qa''),
       numberToString = (\<lambda>r. ''1700000000000'') \<rparr>"

text \<open>
  The list normalizers described from the outside.  An item is accepted when it is an
  object with a string \<open>id\<close> that is not blank.  A price field stands for a price when it
  is a finite number that is not negative, or a non-blank string that \<open>Number\<close> turns
  into one.
\<close>

definition acceptedItem :: "jsval \<Rightarrow> bool" where
  "acceptedItem x =
     (case x of
        JObj kvs \<Rightarrow> (case member x ''id'' of JStr s \<Rightarrow> trim s \<noteq> [] | _ \<Rightarrow> False)
      | _ \<Rightarrow> False)"

definition coercedPrice :: "host \<Rightarrow> jsval \<Rightarrow> rat option" where
  "coercedPrice h v =
     (case v of
        JNum (Fin p) \<Rightarrow> if 0 \<le> p then Some p else None
      | JStr s \<Rightarrow>
          (if trim s = [] then None
           else case toNumber h s of
                  Fin p \<Rightarrow> if 0 \<le> p then Some p else None
                | _ \<Rightarrow> None)
      | _ \<Rightarrow> None)"

definition textField :: "jsval \<Rightarrow> string \<Rightarrow> string" where
  "textField x k = (case member x k of JStr s \<Rightarrow> s | _ \<Rightarrow> '''')"

definition flightOf :: "host \<Rightarrow> jsval \<Rightarrow> Flight" where
  "flightOf h x =
     \<lparr> f_id = textField x ''id'',
       f_link = textField x ''link'',
       f_description = textField x ''description'',
       f_startDate = textField x ''startDate'',
       f_endDate = textField x ''endDate'',
       pricePerPerson =
         (case coercedPrice h (member x ''pricePerPerson'') of Some p \<Rightarrow> p | None \<Rightarrow> 0) \<rparr>"

definition accommodationOf :: "host \<Rightarrow> jsval \<Rightarrow> Accommodation" where
  "accommodationOf h x =
     \<lparr> a_id = textField x ''id'',
       a_link = textField x ''link'',
       a_description = textField x ''description'',
       totalPrice =
         (case coercedPrice h (member x ''totalPrice'') of Some p \<Rightarrow> p | None \<Rightarrow> 0),
       a_startDate = textField x ''startDate'',
       a_endDate = textField x ''endDate'' \<rparr>"

text \<open>
  Five list items: a price given as a digit string, \<open>null\<close>, a bare string, an object
  with a blank id, and an object with a negative price.
\<close>

definition sampleItems :: "string \<Rightarrow> jsval" where
  "sampleItems priceKey =
     JArr [JObj [(''id'', JStr ''f1''), (priceKey, JStr ''120'')],
           JNull,
           JStr ''x'',
           JObj [(''id'', JStr ''  ''), (priceKey, JNum (Fin 1))],
           JObj [(''id'', JStr ''f2''), (priceKey, JNum (Fin (-3)))]]"

text \<open>
  The extra-cost normalizer described from the outside: what one list element becomes,
  and which elements are dropped afterwards.
\<close>

definition extraCostOf :: "jsval \<Rightarrow> ExtraCost" where
  "extraCostOf x =
     \<lparr> ec_description = textField x ''description'',
       ec_value = (case member x ''value'' of
                     JNum (Fin r) \<Rightarrow> if 0 \<le> r then r else 0
                   | _ \<Rightarrow> 0) \<rparr>"

definition emptyExtraCost :: "ExtraCost \<Rightarrow> bool" where
  "emptyExtraCost e \<longleftrightarrow> trim (ec_description e) = [] \<and> ec_value e = 0"

definition genericExtraCost :: "rat \<Rightarrow> ExtraCost" where
  "genericExtraCost r = \<lparr> ec_description = ''General extra cost'', ec_value = r \<rparr>"

definition sampleExtraCosts :: jsval where
  "sampleExtraCosts =
     JArr [JObj [(''description'', JStr ''visa''), (''value'', JNum (Fin 50))],
           JObj [(''description'', JStr '' ''), (''value'', JNum (Fin 0))],
           JObj [(''description'', JNum (Fin 7)), (''value'', JNum (Fin 3))],
           JObj [(''description'', JStr ''taxi''), (''value'', JNum (Fin (-4)))],
           JStr ''x'',
           JObj [(''description'', JStr ''''), (''value'', JStr ''12'')]]"

text \<open>
  The fifth testable property of the specification: a payload whose only destination is
  \<open>{bogus: true}\<close>; and a payload whose \<open>destinations\<close> field is a string.
\<close>

definition bogusPayload :: jsval where
  "bogusPayload = JObj [(''destinations'', JArr [JObj [(''bogus'', JBool True)]])]"

definition noArrayPayload :: jsval where
  "noArrayPayload = JObj [(''destinations'', JStr ''none''), (''settings'', JNull)]"

text \<open>
  A legacy budget estimator with two attempts, the stored id naming the second; and the
  same without a stored id.
\<close>

definition legacyAttempts :: jsval where
  "legacyAttempts =
     JArr [JObj [(''id'', JStr ''a''), (''createdAt'', JNum (Fin 5))],
           JNum (Fin 3),
           JObj [(''id'', JStr ''b''), (''name'', JStr ''second''), (''totalCost'', JNum (Fin 9))]]"

definition legacyEstimator :: jsval where
  "legacyEstimator = JObj [(''fixedAttemptId'', JStr ''b''), (''attempts'', legacyAttempts)]"

definition legacyEstimatorNoId :: jsval where
  "legacyEstimatorNoId = JObj [(''attempts'', legacyAttempts)]"

definition attemptA :: BudgetAttempt where
  "attemptA =
     \<lparr> at_id = ''a'', at_name = ''Saved attempt'', at_createdAt = 5,
       at_flightAssignments = [], at_selectedAccommodationId = '''',
       at_totalCost = 0, at_remaining = 0, at_perPersonTotal = 0 \<rparr>"

definition attemptB :: BudgetAttempt where
  "attemptB =
     \<lparr> at_id = ''b'', at_name = ''second'', at_createdAt = 1700000000000,
       at_flightAssignments = [], at_selectedAccommodationId = '''',
       at_totalCost = 9, at_remaining = 0, at_perPersonTotal = 0 \<rparr>"

text \<open>A client that last saw the remote at 1000, and a remote written at 2000 by a peer.\<close>

definition sampleState :: AppState where
  "sampleState =
     \<lparr> st_destinations = [sampleDestination],
       st_settings = sampleSettings,
       normalizedTripCode = ''TRIP1'',
       lastKnownRemoteByCode = [(''TRIP1'', 1000)],
       lastLocalPushByCode = [(''TRIP1'', 1000)],
       syncStatus = \<lparr> kind = Neutral, message = '''' \<rparr>,
       isPushing = False,
       latestRemoteUpdatedAt = None,
       syncClientId = ''me'' \<rparr>"

definition peerDocument :: jsval where
  "peerDocument =
     JObj [(''destinations'', JArr []),
           (''settings'', js_of_settings sampleSettings),
           (''meta'', JObj [(''updatedAt'', JNum (Fin 2000)), (''updatedBy'', JStr ''peer'')])]"

definition sampleRemote :: remote where
  "sampleRemote = (\<lambda>code. if code = ''TRIP1'' then Some peerDocument else None)"

definition decliningRun :: PushRun where
  "decliningRun =
     \<lparr> syncAvailable = True, readFails = False, writeFails = False, userConfirms = False,
       pushTime = 3000 \<rparr>"

definition isWrite :: "effect \<Rightarrow> bool" where
  "isWrite e = (case e of RemoteWrite c p \<Rightarrow> True | _ \<Rightarrow> False)"

text \<open>A remote document with no destinations and half a traveller.\<close>

definition halfPersonPayload :: jsval where
  "halfPersonPayload =
     JObj [(''destinations'', JArr []),
           (''settings'', JObj [(''totalBudget'', JNum (Fin 100)),
                               (''peopleCount'', JNum (Fin (1 / 2)))])]"

text \<open>
  What the normalizers establish, entity by entity: the invariants of a destination
  that has been through \<open>normalizeDestinationCandidate\<close>.
\<close>

definition validFlight :: "Flight \<Rightarrow> bool" where
  "validFlight f \<longleftrightarrow> trim (f_id f) \<noteq> [] \<and> 0 \<le> pricePerPerson f"

definition validAccommodation :: "Accommodation \<Rightarrow> bool" where
  "validAccommodation a \<longleftrightarrow> trim (a_id a) \<noteq> [] \<and> 0 \<le> totalPrice a"

definition validExtraCost :: "ExtraCost \<Rightarrow> bool" where
  "validExtraCost e \<longleftrightarrow> 0 \<le> ec_value e \<and> keepExtraCost e"

definition validAssignments :: "assignments \<Rightarrow> bool" where
  "validAssignments m \<longleftrightarrow> distinct (map fst m) \<and> (\<forall>e \<in> set m. 0 \<le> snd e \<and> snd e \<in> \<int>)"

definition validAttempt :: "BudgetAttempt \<Rightarrow> bool" where
  "validAttempt a \<longleftrightarrow>
     trim (at_id a) \<noteq> [] \<and> trim (at_name a) \<noteq> [] \<and> validAssignments (at_flightAssignments a)"

definition validEstimator :: "BudgetEstimatorState \<Rightarrow> bool" where
  "validEstimator b \<longleftrightarrow>
     validAssignments (flightAssignments b)
     \<and> ((attempts b = [] \<and> fixedAttemptId b = '''')
        \<or> (\<exists>a. attempts b = [a] \<and> validAttempt a \<and> fixedAttemptId b = at_id a))"

definition validFlightDraft :: "FlightDraft \<Rightarrow> bool" where
  "validFlightDraft d \<longleftrightarrow> (case fd_pricePerPerson d of Some p \<Rightarrow> 0 \<le> p | None \<Rightarrow> True)"

definition validAccommodationDraft :: "AccommodationDraft \<Rightarrow> bool" where
  "validAccommodationDraft d \<longleftrightarrow> (case ad_totalPrice d of Some p \<Rightarrow> 0 \<le> p | None \<Rightarrow> True)"

definition validDestination :: "Destination \<Rightarrow> bool" where
  "validDestination d \<longleftrightarrow>
     trim (d_id d) \<noteq> [] \<and> trim (d_name d) \<noteq> []
     \<and> (\<forall>e \<in> set (extraCosts d). validExtraCost e)
     \<and> validEstimator (budgetEstimator d)
     \<and> validFlightDraft (flightDraft d)
     \<and> validAccommodationDraft (accommodationDraft d)
     \<and> (\<forall>f \<in> set (flights d). validFlight f)
     \<and> (\<forall>a \<in> set (accommodations d). validAccommodation a)"

section \<open>Properties\<close>

subsection \<open>Budget snapshot\<close>

lemma foldl_flightCostStep:
  "foldl (flightCostStep fs) a xs = a + sum_list (map (assignmentCost fs) xs)"
  by (induction xs arbitrary: a)
     (auto simp: flightCostStep_def assignmentCost_def split: option.splits)

lemma foldl_assignedStep:
  "foldl (assignedStep fs) a xs =
     a + sum_list (map snd (filter (\<lambda>e. fst e \<in> f_id ` set fs) xs))"
  by (induction xs arbitrary: a)
     (auto simp: assignedStep_def list_ex_iff image_iff)

lemma foldl_extraCosts:
  "foldl (\<lambda>tot extraCost. tot + ec_value extraCost) a xs = a + sum_list (map ec_value xs)"
  by (induction xs arbitrary: a) auto

text \<open>
  C1.  For every input, \<open>calculateBudgetSnapshot\<close> returns: as \<open>flightCost\<close> the sum over
  the assignment entries of price per person times count, an entry whose key names no
  flight adding 0; as \<open>assignedPeopleCount\<close> the sum of the counts whose key is the id of
  a flight; as \<open>accommodationCost\<close> the total price of the first accommodation with the
  selected id, or 0 when no accommodation has it (as when none is selected); as \<open>extraCostsCost\<close> the sum of all extra-cost values; and
  \<open>totalCost\<close>, \<open>remaining\<close>, \<open>perPersonTotal\<close>, \<open>perPersonRemaining\<close> and
  \<open>isOverAssigned\<close> as the specification derives them from these, dividing by
  \<open>max 1 peopleCount\<close>.
\<close>

theorem calculateBudgetSnapshot_correct:
  "flightCost (calculateBudgetSnapshot inp) =
     sum_list (map (assignmentCost (si_flights inp)) (si_flightAssignments inp))
   \<and> assignedPeopleCount (calculateBudgetSnapshot inp) =
     sum_list (map snd (filter (\<lambda>e. fst e \<in> f_id ` set (si_flights inp))
                          (si_flightAssignments inp)))
   \<and> accommodationCost (calculateBudgetSnapshot inp) =
     (case find (\<lambda>item. a_id item = si_selectedAccommodationId inp) (si_accommodations inp) of
        Some a \<Rightarrow> totalPrice a | None \<Rightarrow> 0)
   \<and> extraCostsCost (calculateBudgetSnapshot inp) = sum_list (map ec_value (si_extraCosts inp))
   \<and> totalCost (calculateBudgetSnapshot inp) =
       flightCost (calculateBudgetSnapshot inp) + accommodationCost (calculateBudgetSnapshot inp)
       + extraCostsCost (calculateBudgetSnapshot inp)
   \<and> remaining (calculateBudgetSnapshot inp) =
       totalBudget (si_settings inp) - totalCost (calculateBudgetSnapshot inp)
   \<and> perPersonTotal (calculateBudgetSnapshot inp) =
       totalCost (calculateBudgetSnapshot inp) / max 1 (peopleCount (si_settings inp))
   \<and> perPersonRemaining (calculateBudgetSnapshot inp) =
       remaining (calculateBudgetSnapshot inp) / max 1 (peopleCount (si_settings inp))
   \<and> isOverAssigned (calculateBudgetSnapshot inp) =
       (assignedPeopleCount (calculateBudgetSnapshot inp) > peopleCount (si_settings inp))"
  by (simp add: calculateBudgetSnapshot_def Let_def foldl_flightCostStep foldl_assignedStep
        foldl_extraCosts)

theorem calculateBudgetSnapshot_correct_witness:
  "flightCost (calculateBudgetSnapshot sampleInput) = 300
   \<and> assignedPeopleCount (calculateBudgetSnapshot sampleInput) = 3
   \<and> accommodationCost (calculateBudgetSnapshot sampleInput) = 500
   \<and> extraCostsCost (calculateBudgetSnapshot sampleInput) = 50
   \<and> totalCost (calculateBudgetSnapshot sampleInput) = 850
   \<and> remaining (calculateBudgetSnapshot sampleInput) = 150
   \<and> perPersonTotal (calculateBudgetSnapshot sampleInput) = 170
   \<and> perPersonRemaining (calculateBudgetSnapshot sampleInput) = 30
   \<and> \<not> isOverAssigned (calculateBudgetSnapshot sampleInput)"
proof -
  have flightsum: "sum_list (map (assignmentCost (si_flights sampleInput))
                     (si_flightAssignments sampleInput)) = 300"
    by (simp add: sampleInput_def assignmentCost_def mkFlight_def)
  have assigned: "sum_list (map snd (filter (\<lambda>e. fst e \<in> f_id ` set (si_flights sampleInput))
                     (si_flightAssignments sampleInput))) = 3"
    by (simp add: sampleInput_def mkFlight_def)
  have acc: "(case find (\<lambda>item. a_id item = si_selectedAccommodationId sampleInput)
                 (si_accommodations sampleInput) of
                Some a \<Rightarrow> totalPrice a | None \<Rightarrow> 0) = 500"
    by (simp add: sampleInput_def mkAccommodation_def)
  have extra: "sum_list (map ec_value (si_extraCosts sampleInput)) = 50"
    by (simp add: sampleInput_def)
  have settings: "totalBudget (si_settings sampleInput) = 1000"
    "peopleCount (si_settings sampleInput) = 5"
    by (simp_all add: sampleInput_def)
  show ?thesis
    using calculateBudgetSnapshot_correct [of sampleInput]
    unfolding flightsum assigned acc extra settings by simp
qed

subsection \<open>Reconciliation after the flights of a destination are replaced\<close>

lemma update_fresh: "k \<notin> fst ` set al \<Longrightarrow> AList.update k v al = al @ [(k, v)]"
  by (induction al) auto

lemma foldl_restrictStep:
  "distinct (map fst (acc @ xs)) \<Longrightarrow>
   foldl (restrictStep ids) acc xs = acc @ filter (\<lambda>e. fst e \<in> set ids) xs"
proof (induction xs arbitrary: acc)
  case Nil
  then show ?case by simp
next
  case (Cons e xs)
  obtain k c where e: "e = (k, c)" by (cases e)
  show ?case
  proof (cases "k \<in> set ids")
    case True
    from Cons.prems e have fresh: "k \<notin> fst ` set acc" by auto
    from Cons.prems e have "distinct (map fst ((acc @ [(k, c)]) @ xs))" by auto
    from Cons.IH [OF this] fresh True e show ?thesis
      by (simp add: restrictStep_def update_fresh)
  next
    case False
    from Cons.prems e have "distinct (map fst (acc @ xs))" by auto
    from Cons.IH [OF this] False e show ?thesis
      by (simp add: restrictStep_def)
  qed
qed

lemma restrict_eq:
  "distinct (map fst m) \<Longrightarrow> foldl (restrictStep (map f_id fs)) [] m = restrictTo fs m"
  using foldl_restrictStep [of "[]" m "map f_id fs"] by (simp add: restrictTo_def)

text \<open>
  C2.  For every destination (whose assignment objects have each key once) and every new
  flight list, the updater of \<open>handleFlightsChange\<close> yields a destination whose live
  assignments are the previous entries restricted to the ids of the new flights, and
  whose stored attempt, if there is one, has its assignments restricted the same way and
  its \<open>totalCost\<close>, \<open>remaining\<close> and \<open>perPersonTotal\<close> set to what
  \<open>calculateBudgetSnapshot\<close> returns for the new flights, the current accommodations and
  extra costs, the restricted assignments of the attempt and the attempt's selected
  accommodation.  Nothing else of the attempt changes.
\<close>

theorem handleFlightsChange_reconciles:
  assumes "wellFormedAssignments d"
  shows "flightAssignments (budgetEstimator (handleFlightsChange settings fs d)) =
           restrictTo fs (flightAssignments (budgetEstimator d))
       \<and> attempts (budgetEstimator (handleFlightsChange settings fs d)) =
           map (\<lambda>a. a \<lparr> at_flightAssignments := restrictTo fs (at_flightAssignments a),
                        at_totalCost := totalCost (attemptSnapshot settings fs d a),
                        at_remaining := remaining (attemptSnapshot settings fs d a),
                        at_perPersonTotal := perPersonTotal (attemptSnapshot settings fs d a) \<rparr>)
             (take 1 (attempts (budgetEstimator d)))
       \<and> flights (handleFlightsChange settings fs d) = fs"
proof -
  from assms have d1: "distinct (map fst (flightAssignments (budgetEstimator d)))"
    by (simp add: wellFormedAssignments_def)
  have d2: "distinct (map fst (at_flightAssignments a))"
    if "a \<in> set (take 1 (attempts (budgetEstimator d)))" for a
    using assms that by (auto simp: wellFormedAssignments_def list_all_iff dest: in_set_takeD)
  have "map (flightsChangeAttempt settings fs d) (take 1 (attempts (budgetEstimator d))) =
        map (\<lambda>a. a \<lparr> at_flightAssignments := restrictTo fs (at_flightAssignments a),
                        at_totalCost := totalCost (attemptSnapshot settings fs d a),
                        at_remaining := remaining (attemptSnapshot settings fs d a),
                        at_perPersonTotal := perPersonTotal (attemptSnapshot settings fs d a) \<rparr>)
             (take 1 (attempts (budgetEstimator d)))"
    by (rule map_cong [OF refl])
       (simp add: flightsChangeAttempt_def Let_def attemptSnapshot_def restrict_eq [OF d2])
  with d1 show ?thesis
    by (simp add: handleFlightsChange_def Let_def restrict_eq)
qed

text \<open>
  The third testable property of the specification: assignments \<open>{f1: 2, f2: 1}\<close>, live
  and in the stored attempt, and a replacement that removes \<open>f2\<close>.
\<close>

theorem handleFlightsChange_reconciles_witness:
  "wellFormedAssignments sampleDestination
   \<and> flightAssignments (budgetEstimator
        (handleFlightsChange sampleSettings [mkFlight ''f1'' 100] sampleDestination))
       = [(''f1'', 2)]
   \<and> attempts (budgetEstimator
        (handleFlightsChange sampleSettings [mkFlight ''f1'' 100] sampleDestination))
       = [sampleAttempt \<lparr> at_flightAssignments := [(''f1'', 2)], at_totalCost := 750,
                          at_remaining := 250, at_perPersonTotal := 150 \<rparr>]"
proof -
  have wf: "wellFormedAssignments sampleDestination"
    by (simp add: wellFormedAssignments_def sampleDestination_def sampleAttempt_def)
  have r1: "restrictTo [mkFlight ''f1'' 100] [(''f1'', 2), (''f2'', 1)] = [(''f1'', 2)]"
    by (simp add: restrictTo_def mkFlight_def)
  have snap: "attemptSnapshot sampleSettings [mkFlight ''f1'' 100] sampleDestination sampleAttempt
      = \<lparr> assignedPeopleCount = 2, flightCost = 200, accommodationCost = 500,
          extraCostsCost = 50, totalCost = 750, remaining = 250, perPersonTotal = 150,
          perPersonRemaining = 50, isOverAssigned = False \<rparr>"
    unfolding attemptSnapshot_def sampleAttempt_def BudgetAttempt.simps r1
    by (simp add: calculateBudgetSnapshot_def Let_def sampleDestination_def sampleSettings_def
          mkFlight_def mkAccommodation_def flightCostStep_def assignedStep_def)
  have fa: "flightAssignments (budgetEstimator sampleDestination) = [(''f1'', 2), (''f2'', 1)]"
    and at: "attempts (budgetEstimator sampleDestination) = [sampleAttempt]"
    by (simp_all add: sampleDestination_def)
  have afa: "at_flightAssignments sampleAttempt = [(''f1'', 2), (''f2'', 1)]"
    by (simp add: sampleAttempt_def)
  show ?thesis
    using wf handleFlightsChange_reconciles [OF wf, of sampleSettings "[mkFlight ''f1'' 100]"]
    by (simp add: fa at afa r1 snap)
qed

subsection \<open>Flight and accommodation list normalizers\<close>

lemma notPlainObject_iff: "notPlainObject v \<longleftrightarrow> (\<forall>kvs. v \<noteq> JObj kvs)"
  by (cases v) (auto simp: notPlainObject_def)

lemma notPlainObject_JObj [simp]: "\<not> notPlainObject (JObj kvs)"
  by (simp add: notPlainObject_def)

lemma stringOrEmpty_textField: "stringOrEmpty (member x k) = textField x k"
  by (cases "member x k") (simp_all add: stringOrEmpty_def textField_def)

lemma priceOrZero_parseNumberValue:
  "priceOrZero (parseNumberValue h v) = (case coercedPrice h v of Some p \<Rightarrow> p | None \<Rightarrow> 0)"
proof (cases v)
  case (JNum n)
  then show ?thesis
    by (cases n) (simp_all add: priceOrZero_def parseNumberValue_def coercedPrice_def)
next
  case (JStr s)
  then show ?thesis
    by (cases "toNumber h s")
       (simp_all add: priceOrZero_def parseNumberValue_def coercedPrice_def)
qed (simp_all add: priceOrZero_def parseNumberValue_def coercedPrice_def)

lemma nonBlankString_cases:
  "nonBlankString v = (case v of JStr s \<Rightarrow> if trim s \<noteq> [] then Some s else None | _ \<Rightarrow> None)"
  by (cases v) (simp_all add: nonBlankString_def)

lemma normalizeFlightItem_eq:
  "normalizeFlightItem h x = (if acceptedItem x then Some (flightOf h x) else None)"
proof (cases x)
  case (JObj kvs)
  show ?thesis
  proof (cases "member x ''id''")
    case (JStr s)
    with JObj show ?thesis
      by (simp add: normalizeFlightItem_def acceptedItem_def nonBlankString_cases flightOf_def
            stringOrEmpty_textField priceOrZero_parseNumberValue textField_def
          del: member.simps)
  qed (use JObj in \<open>simp_all add: normalizeFlightItem_def acceptedItem_def nonBlankString_cases
          del: member.simps\<close>)
qed (simp_all add: normalizeFlightItem_def acceptedItem_def notPlainObject_def)

lemma normalizeAccommodationItem_eq:
  "normalizeAccommodationItem h x = (if acceptedItem x then Some (accommodationOf h x) else None)"
proof (cases x)
  case (JObj kvs)
  show ?thesis
  proof (cases "member x ''id''")
    case (JStr s)
    with JObj show ?thesis
      by (simp add: normalizeAccommodationItem_def acceptedItem_def nonBlankString_cases
            accommodationOf_def stringOrEmpty_textField priceOrZero_parseNumberValue textField_def
          del: member.simps)
  qed (use JObj in \<open>simp_all add: normalizeAccommodationItem_def acceptedItem_def
          nonBlankString_cases del: member.simps\<close>)
qed (simp_all add: normalizeAccommodationItem_def acceptedItem_def notPlainObject_def)

lemma map_filter_if:
  "List.map_filter (\<lambda>x. if P x then Some (f x) else None) xs = map f (filter P xs)"
  by (induction xs) simp_all

text \<open>
  C3, as the code has it.  For every value, the flight list normalizer and the
  accommodation list normalizer return the empty list when the value is not an array;
  from an array they drop exactly the elements that are not objects or have no non-blank
  string id, and keep every other element in order.  A kept element has its price set to
  the coerced price when the price field is a finite number that is not negative or a
  non-blank string that \<open>Number\<close> turns into one, and to 0 otherwise; text fields that are
  not strings become empty.  A price that fails coercion never drops the record.
\<close>

theorem list_normalizers_keep_items_with_id:
  "normalizeFlightList h v =
     (case v of JArr xs \<Rightarrow> map (flightOf h) (filter acceptedItem xs) | _ \<Rightarrow> [])
   \<and> normalizeAccommodationList h v =
     (case v of JArr xs \<Rightarrow> map (accommodationOf h) (filter acceptedItem xs) | _ \<Rightarrow> [])"
proof -
  have f: "normalizeFlightItem h = (\<lambda>x. if acceptedItem x then Some (flightOf h x) else None)"
    by (rule ext) (rule normalizeFlightItem_eq)
  have a: "normalizeAccommodationItem h =
             (\<lambda>x. if acceptedItem x then Some (accommodationOf h x) else None)"
    by (rule ext) (rule normalizeAccommodationItem_eq)
  show ?thesis
    by (cases v)
       (simp_all add: normalizeFlightList_def normalizeAccommodationList_def f a map_filter_if)
qed


theorem list_normalizers_keep_items_with_id_witness:
  "normalizeFlightList sampleHost (sampleItems ''pricePerPerson'')
     = [mkFlight ''f1'' 120, mkFlight ''f2'' 0]
   \<and> normalizeAccommodationList sampleHost (sampleItems ''totalPrice'')
     = [mkAccommodation ''f1'' 120, mkAccommodation ''f2'' 0]
   \<and> normalizeFlightList sampleHost (JStr ''none'') = []"
proof -
  have ws: "trim ''f1'' \<noteq> []" "trim ''f2'' \<noteq> []" "trim ''  '' = []" "trim ''120'' \<noteq> []"
    by (simp_all add: trim_def isWhiteSpace_def)
  have num: "toNumber sampleHost ''120'' = Fin 120"
    by (simp add: sampleHost_def sampleToNumber_def)
  have flights': "map (flightOf sampleHost)
        (filter acceptedItem (elements (sampleItems ''pricePerPerson'')))
      = [mkFlight ''f1'' 120, mkFlight ''f2'' 0]"
    by (simp add: sampleItems_def acceptedItem_def flightOf_def coercedPrice_def textField_def
          mkFlight_def ws num)
  have accs: "map (accommodationOf sampleHost)
        (filter acceptedItem (elements (sampleItems ''totalPrice'')))
      = [mkAccommodation ''f1'' 120, mkAccommodation ''f2'' 0]"
    by (simp add: sampleItems_def acceptedItem_def accommodationOf_def coercedPrice_def
          textField_def mkAccommodation_def ws num)
  have arr: "sampleItems k = JArr (elements (sampleItems k))" for k
    by (simp add: sampleItems_def)
  from list_normalizers_keep_items_with_id [of sampleHost "sampleItems ''pricePerPerson''"]
  have one: "normalizeFlightList sampleHost (sampleItems ''pricePerPerson'')
      = [mkFlight ''f1'' 120, mkFlight ''f2'' 0]"
    by (subst (asm) (1 2) arr) (simp add: flights')
  from list_normalizers_keep_items_with_id [of sampleHost "sampleItems ''totalPrice''"]
  have two: "normalizeAccommodationList sampleHost (sampleItems ''totalPrice'')
      = [mkAccommodation ''f1'' 120, mkAccommodation ''f2'' 0]"
    by (subst (asm) (1 2) arr) (simp add: accs)
  from list_normalizers_keep_items_with_id [of sampleHost "JStr ''none''"]
  have three: "normalizeFlightList sampleHost (JStr ''none'') = []"
    by simp
  from one two three show ?thesis by simp
qed

text \<open>
  The claim as the specification words it fails: a record whose price is the string
  \<open>abc\<close> is kept, with price 0.
\<close>

theorem list_normalizer_counterexample:
  "normalizeFlightList sampleHost
     (JArr [JObj [(''id'', JStr ''f1''), (''pricePerPerson'', JStr ''abc'')]])
   = [mkFlight ''f1'' 0]"
  by (simp add: normalizeFlightList_def normalizeFlightItem_def
        nonBlankString_def parseNumberValue_def priceOrZero_def stringOrEmpty_def mkFlight_def
        sampleHost_def sampleToNumber_def trim_def isWhiteSpace_def)

subsection \<open>Extra-cost normalizer\<close>

lemma normalizeExtraCost_eq:
  "\<not> isNullish x \<Longrightarrow> normalizeExtraCost x = Inr (extraCostOf x)"
proof -
  have v: "(case finiteNumber v of Some r \<Rightarrow> if r \<ge> 0 then r else 0 | None \<Rightarrow> 0) =
           (case v of JNum (Fin r) \<Rightarrow> if 0 \<le> r then r else 0 | _ \<Rightarrow> 0)" for v
  proof (cases v)
    case (JNum n)
    then show ?thesis by (cases n) simp_all
  qed simp_all
  assume "\<not> isNullish x"
  then show ?thesis
    by (simp add: normalizeExtraCost_def extraCostOf_def stringOrEmpty_textField v
          del: member.simps)
qed

lemma mapE_total:
  "(\<And>x. x \<in> set xs \<Longrightarrow> f x = Inr (g x)) \<Longrightarrow> mapE f xs = Inr (map g xs)"
  by (induction xs) simp_all

lemma extraCostOf_nonneg: "0 \<le> ec_value (extraCostOf x)"
proof (cases "member x ''value''")
  case (JNum n)
  then show ?thesis by (cases n) (simp_all add: extraCostOf_def del: member.simps)
qed (simp_all add: extraCostOf_def del: member.simps)

lemma keepExtraCost_iff: "0 \<le> ec_value e \<Longrightarrow> keepExtraCost e \<longleftrightarrow> \<not> emptyExtraCost e"
  by (auto simp: keepExtraCost_def emptyExtraCost_def)

text \<open>
  C9, as the code has it.  A legacy scalar number becomes a one-element list with the
  generic description and that number as its value when it is finite and greater than 0;
  any other number (0, a negative number, NaN, an infinity) gives the empty list.  From
  an array without \<open>null\<close> or \<open>undefined\<close> elements every element becomes an extra cost
  (its description when that is a string, else the empty string; its value when that is
  a finite number that is not negative, else 0), and then the elements whose description
  is blank and whose value is 0 are dropped.  Any value that is neither a number nor an
  array gives the empty list.  On all these inputs the normalizer returns normally.
\<close>

theorem normalizeExtraCosts_behaviour:
  "(0 < r \<longrightarrow> normalizeExtraCosts (JNum (Fin r)) = Inr [genericExtraCost r])
   \<and> (r \<le> 0 \<longrightarrow> normalizeExtraCosts (JNum (Fin r)) = Inr [])
   \<and> normalizeExtraCosts (JNum NaN) = Inr []
   \<and> normalizeExtraCosts (JNum PosInf) = Inr []
   \<and> normalizeExtraCosts (JNum NegInf) = Inr []
   \<and> ((\<forall>x \<in> set xs. \<not> isNullish x) \<longrightarrow>
        normalizeExtraCosts (JArr xs) =
          Inr (filter (\<lambda>e. \<not> emptyExtraCost e) (map extraCostOf xs)))
   \<and> (typeof v \<noteq> TNumber \<and> \<not> isArray v \<longrightarrow> normalizeExtraCosts v = Inr [])"
proof -
  have arr: "normalizeExtraCosts (JArr xs) =
          Inr (filter (\<lambda>e. \<not> emptyExtraCost e) (map extraCostOf xs))"
    if "\<forall>x \<in> set xs. \<not> isNullish x"
  proof -
    from that have "mapE normalizeExtraCost xs = Inr (map extraCostOf xs)"
      by (intro mapE_total normalizeExtraCost_eq) simp
    moreover have "filter keepExtraCost (map extraCostOf xs) =
                   filter (\<lambda>e. \<not> emptyExtraCost e) (map extraCostOf xs)"
      by (rule filter_cong [OF refl]) (auto simp: keepExtraCost_iff extraCostOf_nonneg)
    ultimately show ?thesis by (simp add: normalizeExtraCosts_def)
  qed
  show ?thesis
    using arr by (simp add: normalizeExtraCosts_def genericExtraCost_def)
qed

text \<open>The scalar upgrade does not happen for 0 or for a negative number.\<close>

theorem normalizeExtraCosts_counterexample:
  "normalizeExtraCosts (JNum (Fin 0)) = Inr [] \<and> normalizeExtraCosts (JNum (Fin (-5))) = Inr []"
  by (simp add: normalizeExtraCosts_def)

text \<open>
  An array element that is \<open>null\<close> makes the callback read a property of \<open>null\<close>: the
  normalizer throws, unlike its siblings, which test for an object first.
\<close>

lemma normalizeExtraCosts_null_element: "normalizeExtraCosts (JArr [JNull]) = Inl TypeError"
  by (simp add: normalizeExtraCosts_def normalizeExtraCost_def)

theorem normalizeExtraCosts_behaviour_witness:
  "normalizeExtraCosts (JNum (Fin 80)) = Inr [genericExtraCost 80]
   \<and> normalizeExtraCosts (JNum (Fin (-5))) = Inr []
   \<and> normalizeExtraCosts sampleExtraCosts =
       Inr [\<lparr> ec_description = ''visa'', ec_value = 50 \<rparr>,
            \<lparr> ec_description = '''', ec_value = 3 \<rparr>,
            \<lparr> ec_description = ''taxi'', ec_value = 0 \<rparr>]
   \<and> normalizeExtraCosts (JStr ''12'') = Inr []"
proof -
  have ws: "trim ''visa'' \<noteq> []" "trim '' '' = []" "trim ''taxi'' \<noteq> []" "trim '''' = []"
    by (simp_all add: trim_def isWhiteSpace_def)
  have nn: "\<forall>x \<in> set (elements sampleExtraCosts). \<not> isNullish x"
    by (simp add: sampleExtraCosts_def)
  have arr: "sampleExtraCosts = JArr (elements sampleExtraCosts)"
    by (simp add: sampleExtraCosts_def)
  have kept: "filter (\<lambda>e. \<not> emptyExtraCost e) (map extraCostOf (elements sampleExtraCosts)) =
       [\<lparr> ec_description = ''visa'', ec_value = 50 \<rparr>,
        \<lparr> ec_description = '''', ec_value = 3 \<rparr>,
        \<lparr> ec_description = ''taxi'', ec_value = 0 \<rparr>]"
    by (simp add: sampleExtraCosts_def extraCostOf_def emptyExtraCost_def textField_def ws)
  from normalizeExtraCosts_behaviour [of 80 "elements sampleExtraCosts" "JStr ''12''"] nn
  have a: "normalizeExtraCosts (JNum (Fin 80)) = Inr [genericExtraCost 80]"
    and b: "normalizeExtraCosts (JArr (elements sampleExtraCosts)) =
          Inr (filter (\<lambda>e. \<not> emptyExtraCost e) (map extraCostOf (elements sampleExtraCosts)))"
    and c: "normalizeExtraCosts (JStr ''12'') = Inr []"
    by simp_all
  from normalizeExtraCosts_behaviour [of "-5" "[]" JNull]
  have d: "normalizeExtraCosts (JNum (Fin (-5))) = Inr []" by simp
  from a b c d kept arr show ?thesis by simp
qed

subsection \<open>Full payload normalizer\<close>

lemma mapE_all_rejected:
  "(\<And>x. x \<in> set xs \<Longrightarrow> f x = Inr None) \<Longrightarrow> mapE f xs = Inr (map (\<lambda>x. None) xs)"
  by (induction xs) simp_all

lemma map_filter_all_None: "List.map_filter (\<lambda>d. d) (map (\<lambda>x. None) xs) = []"
  by (induction xs) simp_all

text \<open>
  C4.  A payload whose \<open>destinations\<close> field is a non-empty array of which
  \<open>normalizeDestinationCandidate\<close> rejects every element makes \<open>parseTripSyncPayload\<close>
  return \<open>null\<close>, not a document with no destinations; and so does every payload whose
  \<open>destinations\<close> field is not an array.
\<close>

theorem parseTripSyncPayload_fails_closed:
  "(member payload ''destinations'' = JArr ds \<and> ds \<noteq> [] \<and>
      (\<forall>d \<in> set ds. normalizeDestinationCandidate h d = Inr None)
      \<longrightarrow> parseTripSyncPayload h payload fallbackSettings = Inr None)
   \<and> (\<not> isArray (member payload ''destinations'')
      \<longrightarrow> parseTripSyncPayload h payload fallbackSettings = Inr None)"
proof (intro conjI impI)
  assume a: "member payload ''destinations'' = JArr ds \<and> ds \<noteq> [] \<and>
      (\<forall>d \<in> set ds. normalizeDestinationCandidate h d = Inr None)"
  then have "mapE (normalizeDestinationCandidate h) ds = Inr (map (\<lambda>x. None) ds)"
    by (intro mapE_all_rejected) simp
  with a show "parseTripSyncPayload h payload fallbackSettings = Inr None"
    by (simp add: parseTripSyncPayload_def map_filter_all_None)
next
  assume "\<not> isArray (member payload ''destinations'')"
  then show "parseTripSyncPayload h payload fallbackSettings = Inr None"
    by (simp add: parseTripSyncPayload_def)
qed

theorem parseTripSyncPayload_fails_closed_witness:
  "parseTripSyncPayload sampleHost bogusPayload sampleSettings = Inr None
   \<and> parseTripSyncPayload sampleHost noArrayPayload sampleSettings = Inr None"
proof -
  have ds: "member bogusPayload ''destinations'' = JArr [JObj [(''bogus'', JBool True)]]"
    by (simp add: bogusPayload_def)
  have rej: "\<forall>d \<in> set [JObj [(''bogus'', JBool True)]].
               normalizeDestinationCandidate sampleHost d = Inr None"
    by (simp add: normalizeDestinationCandidate_def nonBlankString_def)
  have na: "\<not> isArray (member noArrayPayload ''destinations'')"
    by (simp add: noArrayPayload_def)
  from parseTripSyncPayload_fails_closed
         [of bogusPayload "[JObj [(''bogus'', JBool True)]]" sampleHost sampleSettings] ds rej
  have one: "parseTripSyncPayload sampleHost bogusPayload sampleSettings = Inr None"
    by simp
  from parseTripSyncPayload_fails_closed [of noArrayPayload "[]" sampleHost sampleSettings] na
  have two: "parseTripSyncPayload sampleHost noArrayPayload sampleSettings = Inr None"
    by simp
  from one two show ?thesis by simp
qed

subsection \<open>Budget estimator normalizer\<close>

lemma firstIdOrEmpty_eq: "firstIdOrEmpty xs = (case xs of [] \<Rightarrow> '''' | a # _ \<Rightarrow> at_id a)"
  by (cases xs) simp_all

text \<open>
  C5.  For every value, legacy inputs with two or more attempts included, the budget
  estimator normalizer returns at most one attempt.  Of the attempts that survive
  \<open>normalizeBudgetAttempts\<close> (entries that are not objects are dropped, at most the first
  40 are kept) it returns the first whose id is the stored \<open>fixedAttemptId\<close> when there
  is one, otherwise the first survivor, otherwise none; and the \<open>fixedAttemptId\<close> it
  returns is the id of the attempt it returns, or the empty string when it returns none.
\<close>

theorem normalizeBudgetEstimator_single_attempt:
  "attempts (normalizeBudgetEstimator h v) =
     (case find (\<lambda>a. at_id a = textField v ''fixedAttemptId'')
             (normalizeBudgetAttempts h (member v ''attempts'')) of
        Some a \<Rightarrow> [a]
      | None \<Rightarrow> take 1 (normalizeBudgetAttempts h (member v ''attempts'')))
   \<and> length (attempts (normalizeBudgetEstimator h v)) \<le> 1
   \<and> fixedAttemptId (normalizeBudgetEstimator h v) =
       (case attempts (normalizeBudgetEstimator h v) of [] \<Rightarrow> '''' | a # _ \<Rightarrow> at_id a)"
proof -
  let ?xs = "normalizeBudgetAttempts h (member v ''attempts'')"
  have "(case preferredAttempt (textField v ''fixedAttemptId'') ?xs of
           Some a \<Rightarrow> [a] | None \<Rightarrow> []) =
        (case find (\<lambda>a. at_id a = textField v ''fixedAttemptId'') ?xs of
           Some a \<Rightarrow> [a] | None \<Rightarrow> take 1 ?xs)"
    by (cases ?xs) (simp_all add: preferredAttempt_def split: option.splits)
  then show ?thesis
    by (simp add: normalizeBudgetEstimator_def Let_def stringOrEmpty_textField firstIdOrEmpty_eq
          split: option.splits list.splits del: member.simps)
qed

lemma legacy_survivors: "normalizeBudgetAttempts sampleHost legacyAttempts = [attemptA, attemptB]"
  by (simp add: normalizeBudgetAttempts_def legacyAttempts_def normalizeBudgetAttempt_def
        enumerate_eq_zip notPlainObject_def finiteOr_def nonBlankString_def trim_def
        isWhiteSpace_def stringOrEmpty_def normalizeFlightAssignments_def sampleHost_def
        attemptA_def attemptB_def Let_def upt_rec)

theorem normalizeBudgetEstimator_single_attempt_witness:
  "attempts (normalizeBudgetEstimator sampleHost legacyEstimator) = [attemptB]
   \<and> fixedAttemptId (normalizeBudgetEstimator sampleHost legacyEstimator) = ''b''
   \<and> attempts (normalizeBudgetEstimator sampleHost legacyEstimatorNoId) = [attemptA]
   \<and> fixedAttemptId (normalizeBudgetEstimator sampleHost legacyEstimatorNoId) = ''a''
   \<and> attempts (normalizeBudgetEstimator sampleHost JNull) = []
   \<and> fixedAttemptId (normalizeBudgetEstimator sampleHost JNull) = ''''"
proof -
  have m1: "member legacyEstimator ''attempts'' = legacyAttempts"
    "member legacyEstimatorNoId ''attempts'' = legacyAttempts"
    "textField legacyEstimator ''fixedAttemptId'' = ''b''"
    "textField legacyEstimatorNoId ''fixedAttemptId'' = ''''"
    by (simp_all add: legacyEstimator_def legacyEstimatorNoId_def textField_def)
  have ids: "at_id attemptA = ''a''" "at_id attemptB = ''b''"
    by (simp_all add: attemptA_def attemptB_def)
  have none: "normalizeBudgetAttempts sampleHost JUndefined = []"
    by (simp add: normalizeBudgetAttempts_def)
  from normalizeBudgetEstimator_single_attempt [of sampleHost legacyEstimator]
  have one: "attempts (normalizeBudgetEstimator sampleHost legacyEstimator) = [attemptB]
     \<and> fixedAttemptId (normalizeBudgetEstimator sampleHost legacyEstimator) = ''b''"
    by (simp add: m1 legacy_survivors ids)
  from normalizeBudgetEstimator_single_attempt [of sampleHost legacyEstimatorNoId]
  have two: "attempts (normalizeBudgetEstimator sampleHost legacyEstimatorNoId) = [attemptA]
     \<and> fixedAttemptId (normalizeBudgetEstimator sampleHost legacyEstimatorNoId) = ''a''"
    by (simp add: m1 legacy_survivors ids)
  from normalizeBudgetEstimator_single_attempt [of sampleHost JNull]
  have three: "attempts (normalizeBudgetEstimator sampleHost JNull) = []
     \<and> fixedAttemptId (normalizeBudgetEstimator sampleHost JNull) = ''''"
    by (simp add: none textField_def)
  from one two three show ?thesis by simp
qed

subsection \<open>Canonical form of assignment maps\<close>

lemma floor_half: "\<lfloor>1 / 2 :: rat\<rfloor> = 0" and floor_five_halves: "\<lfloor>5 / 2 :: rat\<rfloor> = 2"
  by (rule floor_unique; simp)+

lemma set_update_subset: "set (AList.update k v al) \<subseteq> insert (k, v) (set al)"
  by (induction al) auto

lemma set_delete_subset: "set (AList.delete k al) \<subseteq> set al"
  by (auto simp: AList.delete_eq)

lemma foldl_assignmentStep_inv:
  assumes "\<And>acc k (c::rat). P acc \<Longrightarrow> 0 \<le> c \<Longrightarrow> P (AList.update k (of_int \<lfloor>c\<rfloor>) acc)"
    and "P acc"
  shows "P (foldl assignmentStep acc xs)"
  using assms(2)
proof (induction xs arbitrary: acc)
  case Nil
  then show ?case by simp
next
  case (Cons e xs)
  obtain k c where e: "e = (k, c)" by (cases e)
  have "P (assignmentStep acc e)"
  proof (cases "finiteNumber c")
    case None
    with Cons.prems show ?thesis by (simp add: assignmentStep_def e)
  next
    case (Some r)
    show ?thesis
    proof (cases "0 \<le> r")
      case True
      from assms(1) [OF Cons.prems True] Some True show ?thesis
        by (simp add: assignmentStep_def e)
    next
      case False
      with Cons.prems Some show ?thesis by (simp add: assignmentStep_def e)
    qed
  qed
  then show ?case by (simp add: Cons.IH)
qed

lemma normalizeFlightAssignments_values:
  "\<forall>e \<in> set (normalizeFlightAssignments v). 0 \<le> snd e \<and> snd e \<in> \<int>"
proof -
  have "\<forall>e \<in> set (foldl assignmentStep [] xs). 0 \<le> snd e \<and> snd e \<in> \<int>" for xs
  proof (rule foldl_assignmentStep_inv)
    fix acc :: assignments and k and c :: rat
    assume inv: "\<forall>e \<in> set acc. 0 \<le> snd e \<and> snd e \<in> \<int>" and c: "0 \<le> c"
    show "\<forall>e \<in> set (AList.update k (of_int \<lfloor>c\<rfloor>) acc). 0 \<le> snd e \<and> snd e \<in> \<int>"
    proof
      fix e assume "e \<in> set (AList.update k (of_int \<lfloor>c\<rfloor>) acc)"
      with set_update_subset have "e = (k, of_int \<lfloor>c\<rfloor>) \<or> e \<in> set acc" by fastforce
      with inv c show "0 \<le> snd e \<and> snd e \<in> \<int>" by auto
    qed
  qed simp
  then show ?thesis by (simp add: normalizeFlightAssignments_def)
qed

lemma normalizeFlightAssignments_distinct:
  "distinct (map fst (normalizeFlightAssignments v))"
proof -
  have "distinct (map fst (foldl assignmentStep [] xs))" for xs
    by (rule foldl_assignmentStep_inv) (simp_all add: distinct_update)
  then show ?thesis by (simp add: normalizeFlightAssignments_def)
qed

text \<open>
  C6, as the code has it.  The assignment-change operation keeps an assignment map
  canonical: from a map without zero-valued entries it passes on a map without
  zero-valued entries, and setting a count to 0 removes the key.  The assignment
  normalizer, on any value, yields only counts that are non-negative integers; it does
  not remove a zero count.
\<close>

theorem assignments_canonical_form:
  "(nextAssignments m k c = Some m' \<and> (\<forall>e \<in> set m. snd e \<noteq> 0) \<longrightarrow> (\<forall>e \<in> set m'. snd e \<noteq> 0))
   \<and> nextAssignments m k 0 = Some (AList.delete k m)
   \<and> k \<notin> fst ` set (AList.delete k m)
   \<and> (\<forall>e \<in> set (normalizeFlightAssignments v). 0 \<le> snd e \<and> snd e \<in> \<int>)"
proof -
  have "\<forall>e \<in> set m'. snd e \<noteq> 0"
    if "nextAssignments m k c = Some m'" and "\<forall>e \<in> set m. snd e \<noteq> 0"
  proof
    fix e assume e: "e \<in> set m'"
    from that(1) consider "c = 0" "m' = AList.delete k m" | "0 < c" "m' = AList.update k c m"
      by (auto simp: nextAssignments_def split: if_splits)
    then show "snd e \<noteq> 0"
    proof cases
      case 1
      with e set_delete_subset have "e \<in> set m" by fastforce
      with that(2) show ?thesis by simp
    next
      case 2
      with e set_update_subset have "e = (k, c) \<or> e \<in> set m" by fastforce
      with that(2) 2 show ?thesis by auto
    qed
  qed
  then show ?thesis
    by (simp add: nextAssignments_def delete_notin_dom normalizeFlightAssignments_values)
qed

text \<open>
  The normalizer keeps a count of 0, and floors a count of one half to 0: its result has
  zero-valued entries.
\<close>

theorem assignments_canonical_form_counterexample:
  "normalizeFlightAssignments (JObj [(''f1'', JNum (Fin 0)), (''f2'', JNum (Fin (1/2)))])
     = [(''f1'', 0), (''f2'', 0)]"
  by (simp add: normalizeFlightAssignments_def assignmentStep_def notPlainObject_def floor_half)

theorem assignments_canonical_form_witness:
  "nextAssignments [(''f1'', 2), (''f2'', 1)] ''f2'' 0 = Some [(''f1'', 2)]
   \<and> nextAssignments [(''f1'', 2), (''f2'', 1)] ''f3'' 4 = Some [(''f1'', 2), (''f2'', 1), (''f3'', 4)]
   \<and> normalizeFlightAssignments
        (JObj [(''f1'', JNum (Fin (5/2))), (''f2'', JNum (Fin (-1))), (''f3'', JStr ''2'')])
       = [(''f1'', 2)]"
proof -
  have pre: "\<forall>e \<in> set [(''f1'', 2::rat), (''f2'', 1)]. snd e \<noteq> 0" by simp
  have n1: "nextAssignments [(''f1'', 2), (''f2'', 1)] ''f3'' 4
              = Some [(''f1'', 2), (''f2'', 1), (''f3'', 4)]"
    by (simp add: nextAssignments_def)
  have del: "AList.delete ''f2'' [(''f1'', 2::rat), (''f2'', 1)] = [(''f1'', 2)]"
    by (simp add: AList.delete_eq)
  have nf: "normalizeFlightAssignments
        (JObj [(''f1'', JNum (Fin (5/2))), (''f2'', JNum (Fin (-1))), (''f3'', JStr ''2'')])
       = [(''f1'', 2)]"
    by (simp add: normalizeFlightAssignments_def assignmentStep_def notPlainObject_def
          floor_five_halves)
  from assignments_canonical_form
         [of "[(''f1'', 2), (''f2'', 1)]" "''f3''" 4 "[(''f1'', 2), (''f2'', 1), (''f3'', 4)]"
             "JObj [(''f1'', JNum (Fin (5/2))), (''f2'', JNum (Fin (-1))), (''f3'', JStr ''2'')]"]
       pre n1
  have a: "\<forall>e \<in> set [(''f1'', 2::rat), (''f2'', 1), (''f3'', 4)]. snd e \<noteq> 0" by blast
  from assignments_canonical_form [of "[(''f1'', 2), (''f2'', 1)]" "''f2''"]
  have b: "nextAssignments [(''f1'', 2), (''f2'', 1)] ''f2'' 0 = Some [(''f1'', 2)]"
    by (simp add: del)
  from a b n1 nf show ?thesis by simp
qed

subsection \<open>Pushing against a newer remote\<close>

lemma stale_needsConfirmation:
  assumes "db (normalizedTripCode st) = Some doc"
    and "member (member doc ''meta'') ''updatedAt'' = JNum (Fin t)"
    and "0 < t" and "knownRemoteUpdatedAt st < t"
  shows "needsConfirmation st (db (normalizedTripCode st))"
  using assms by (simp add: needsConfirmation_def remoteUpdatedAt_def parseTimestamp_def)

text \<open>
  C8.  Take any run of the push handler for the trip code of the state, with a remote
  document whose \<open>meta.updatedAt\<close> is a timestamp strictly newer than the client's last
  known remote value for that code (0 when it has none).  If the user declines, nothing
  is written: the remote store and both markers are as before.  If anything is written,
  the user has confirmed, and the confirmation came after the read and before the write.
  And whenever the handler gets as far as reading the remote, it asks.
\<close>

theorem handlePushToTrip_stale_needs_confirmation:
  assumes "db (normalizedTripCode st) = Some doc"
    and "member (member doc ''meta'') ''updatedAt'' = JNum (Fin t)"
    and "0 < t" and "knownRemoteUpdatedAt st < t"
    and "handlePushToTrip run st db = (st', db', effects)"
  shows "(\<not> userConfirms run \<longrightarrow>
            db' = db
          \<and> lastKnownRemoteByCode st' = lastKnownRemoteByCode st
          \<and> lastLocalPushByCode st' = lastLocalPushByCode st
          \<and> \<not> list_ex isWrite effects)
       \<and> (list_ex isWrite effects \<longrightarrow>
            userConfirms run
          \<and> effects = [RemoteRead (normalizedTripCode st), ConfirmShown,
                        RemoteWrite (normalizedTripCode st) (pushPayload st (pushTime run))])
       \<and> (syncAvailable run \<and> hasValidTripCode st \<and> \<not> readFails run \<longrightarrow>
            take 2 effects = [RemoteRead (normalizedTripCode st), ConfirmShown])"
proof -
  have nc: "needsConfirmation st (db (normalizedTripCode st))"
    using assms(1-4) by (rule stale_needsConfirmation [of db st doc t])
  from assms(5) nc show ?thesis
    by (auto simp: handlePushToTrip_def Let_def isWrite_def split: if_splits)
qed


theorem handlePushToTrip_stale_needs_confirmation_witness:
  "(case handlePushToTrip decliningRun sampleState sampleRemote of
      (st', db', effects) \<Rightarrow>
        db' = sampleRemote
      \<and> lastKnownRemoteByCode st' = [(''TRIP1'', 1000)]
      \<and> lastLocalPushByCode st' = [(''TRIP1'', 1000)]
      \<and> \<not> list_ex isWrite effects
      \<and> take 2 effects = [RemoteRead ''TRIP1'', ConfirmShown])"
proof -
  have code: "normalizedTripCode sampleState = ''TRIP1''"
    and known: "knownRemoteUpdatedAt sampleState = 1000"
    and valid: "hasValidTripCode sampleState"
    and markers: "lastKnownRemoteByCode sampleState = [(''TRIP1'', 1000)]"
      "lastLocalPushByCode sampleState = [(''TRIP1'', 1000)]"
    by (simp_all add: sampleState_def knownRemoteUpdatedAt_def hasValidTripCode_def
          TRIP_CODE_MIN_LENGTH_def)
  have doc: "sampleRemote (normalizedTripCode sampleState) = Some peerDocument"
    by (simp add: code sampleRemote_def)
  have stamp: "member (member peerDocument ''meta'') ''updatedAt'' = JNum (Fin 2000)"
    by (simp add: peerDocument_def)
  have newer: "knownRemoteUpdatedAt sampleState < 2000" "(0::rat) < 2000"
    by (simp_all add: known)
  have run: "syncAvailable decliningRun" "\<not> readFails decliningRun" "\<not> userConfirms decliningRun"
    by (simp_all add: decliningRun_def)
  obtain st' db' effects
    where out: "handlePushToTrip decliningRun sampleState sampleRemote = (st', db', effects)"
    by (cases "handlePushToTrip decliningRun sampleState sampleRemote") auto
  from handlePushToTrip_stale_needs_confirmation [OF doc stamp newer(2) newer(1) out]
       run valid
  show ?thesis by (simp add: out code markers)
qed

subsection \<open>Overriding the saved baseline\<close>

lemma preferredAttempt_Some:
  "xs \<noteq> [] \<Longrightarrow> \<exists>a \<in> set xs. preferredAttempt wanted xs = Some a"
  by (cases xs) (auto simp: preferredAttempt_def split: option.splits dest: find_Some_iff [THEN iffD1])

lemma replaceSavedWithCurrent_result:
  assumes "savedAttempt rendered = Some saved"
  shows "attempts (budgetEstimator (replaceSavedWithCurrent settings now rendered current))
           = [updatedAttempt settings now rendered saved]
       \<and> fixedAttemptId (budgetEstimator (replaceSavedWithCurrent settings now rendered current))
           = at_id saved"
  using assms
  by (simp add: replaceSavedWithCurrent_def handleAttemptsChange_def
        handleFixedAttemptIdChange_def updatedAttempt_def Let_def)

text \<open>
  C10.  Whenever the rendered destination has a saved attempt, overriding it with the
  current selection leaves exactly one attempt.  It is the saved attempt with its name,
  creation time, assignments, selected accommodation and three cost fields replaced and
  its id untouched, and \<open>fixedAttemptId\<close> is that id: the saved baseline is never
  re-keyed.
\<close>

theorem replaceSavedWithCurrent_keeps_id:
  assumes "attempts (budgetEstimator rendered) \<noteq> []"
  shows "\<exists>saved \<in> set (attempts (budgetEstimator rendered)).
           savedAttempt rendered = Some saved
         \<and> attempts (budgetEstimator (replaceSavedWithCurrent settings now rendered current))
             = [saved \<lparr> at_name := ''Saved baseline'',
                        at_createdAt := now,
                        at_flightAssignments := flightAssignments (budgetEstimator rendered),
                        at_selectedAccommodationId :=
                          selectedAccommodationId (budgetEstimator rendered),
                        at_totalCost := totalCost (renderedSnapshot settings rendered),
                        at_remaining := remaining (renderedSnapshot settings rendered),
                        at_perPersonTotal := perPersonTotal (renderedSnapshot settings rendered) \<rparr>]
         \<and> map at_id (attempts (budgetEstimator
               (replaceSavedWithCurrent settings now rendered current))) = [at_id saved]
         \<and> fixedAttemptId (budgetEstimator
               (replaceSavedWithCurrent settings now rendered current)) = at_id saved"
proof -
  from preferredAttempt_Some [OF assms]
  obtain saved where mem: "saved \<in> set (attempts (budgetEstimator rendered))"
    and saved: "savedAttempt rendered = Some saved"
    by (auto simp: savedAttempt_def)
  from replaceSavedWithCurrent_result [OF saved, of settings now current] mem saved
  show ?thesis
    by (intro bexI [of _ saved]) (simp_all add: updatedAttempt_def)
qed

theorem replaceSavedWithCurrent_keeps_id_witness:
  "attempts (budgetEstimator sampleDestination) = [sampleAttempt]
   \<and> map at_id (attempts (budgetEstimator
        (replaceSavedWithCurrent sampleSettings 5000 sampleDestination sampleDestination)))
       = [''att1'']
   \<and> fixedAttemptId (budgetEstimator
        (replaceSavedWithCurrent sampleSettings 5000 sampleDestination sampleDestination))
       = ''att1''"
proof -
  have at: "attempts (budgetEstimator sampleDestination) = [sampleAttempt]"
    by (simp add: sampleDestination_def)
  then have ne: "attempts (budgetEstimator sampleDestination) \<noteq> []" by simp
  have aid: "at_id sampleAttempt = ''att1''" by (simp add: sampleAttempt_def)
  from replaceSavedWithCurrent_keeps_id [OF ne, of sampleSettings 5000 sampleDestination]
  show ?thesis unfolding at by (simp add: aid)
qed

subsection \<open>Normalizing twice\<close>

text \<open>
  C7 asks that normalizing a document that is already normalized changes nothing.  The
  settings normalizer tests \<open>peopleCount > 0\<close> before it floors, so half a traveller
  becomes a people count of 0, which the same normalizer rejects on the next pass and
  replaces by the fallback's: the second pass over the first pass's output differs.
\<close>

theorem normalization_drifts_on_fractional_peopleCount:
  "parseTripSyncPayload sampleHost halfPersonPayload DEFAULT_SETTINGS =
     Inr (Some \<lparr> pp_destinations = [],
                 pp_settings = \<lparr> totalBudget = 100, peopleCount = 0 \<rparr>,
                 pp_remoteUpdatedAt = None \<rparr>)
   \<and> parseTripSyncPayload sampleHost
       (js_of_document [] \<lparr> totalBudget = 100, peopleCount = 0 \<rparr>) DEFAULT_SETTINGS =
     Inr (Some \<lparr> pp_destinations = [],
                 pp_settings = \<lparr> totalBudget = 100, peopleCount = 5 \<rparr>,
                 pp_remoteUpdatedAt = None \<rparr>)"
  by (simp add: parseTripSyncPayload_def halfPersonPayload_def js_of_document_def
        js_of_settings_def normalizeSettings_def DEFAULT_SETTINGS_def parseTimestamp_def
        floor_half)

text \<open>
  That is the only drift of the settings normalizer under a fallback with a whole
  people count: when the people count it returns is at least 1, or is the fallback's,
  a second pass returns the same settings.
\<close>

lemma normalizeSettings_js:
  "normalizeSettings (js_of_settings s) fallback =
     \<lparr> totalBudget = (if totalBudget s \<ge> 0 then totalBudget s else totalBudget fallback),
       peopleCount = (if peopleCount s > 0 then of_int \<lfloor>peopleCount s\<rfloor>
                      else peopleCount fallback) \<rparr>"
  by (simp add: normalizeSettings_def js_of_settings_def)

lemma normalizeSettings_idempotent:
  assumes int: "peopleCount fallback \<in> \<int>"
    and pos: "peopleCount (normalizeSettings candidate fallback) \<ge> 1
           \<or> peopleCount (normalizeSettings candidate fallback) = peopleCount fallback"
  shows "normalizeSettings (js_of_settings (normalizeSettings candidate fallback)) fallback
         = normalizeSettings candidate fallback"
proof -
  let ?r = "normalizeSettings candidate fallback"
  have b: "totalBudget ?r \<ge> 0 \<or> totalBudget ?r = totalBudget fallback"
    by (simp add: normalizeSettings_def split: option.splits)
  have "peopleCount ?r \<in> \<int>"
    using int by (simp add: normalizeSettings_def split: option.splits)
  then have fl: "of_int \<lfloor>peopleCount ?r\<rfloor> = peopleCount ?r"
    by (auto elim: Ints_cases)
  from b pos show ?thesis
    unfolding normalizeSettings_js [of ?r] fl by (cases ?r) auto
qed

text \<open>
  Everything else in the pipeline is stable.  A destination that comes out of
  \<open>normalizeDestinationCandidate\<close> satisfies \<open>validDestination\<close>, and a destination that
  satisfies it is returned unchanged when it is normalized again, under any host; so a
  document that comes out of \<open>parseTripSyncPayload\<close> is returned unchanged by a second
  pass, provided the people count did not fall to 0 on the first.
\<close>

lemma ex_dropWhile_iff: "(\<exists>x \<in> set (dropWhile P xs). \<not> P x) \<longleftrightarrow> (\<exists>x \<in> set xs. \<not> P x)"
  by (induction xs) auto

lemma trim_nonempty_iff: "trim s \<noteq> [] \<longleftrightarrow> (\<exists>c \<in> set s. \<not> isWhiteSpace c)"
proof -
  have "trim s \<noteq> [] \<longleftrightarrow> (\<exists>x \<in> set (rev (dropWhile isWhiteSpace s)). \<not> isWhiteSpace x)"
    by (simp add: trim_def dropWhile_eq_Nil_conv)
  then show ?thesis by (simp add: ex_dropWhile_iff)
qed

lemma nonBlankString_JStr: "nonBlankString (JStr s) = (if trim s \<noteq> [] then Some s else None)"
  by (simp add: nonBlankString_def)

lemma nonBlankString_SomeD: "nonBlankString v = Some s \<Longrightarrow> v = JStr s \<and> trim s \<noteq> []"
  by (cases v) (auto simp: nonBlankString_def split: if_splits)

lemma priceOrZero_nonneg: "0 \<le> priceOrZero p"
  by (simp add: priceOrZero_def split: option.splits)

lemma normalizeFlightItem_valid: "normalizeFlightItem h x = Some f \<Longrightarrow> validFlight f"
  by (auto simp: normalizeFlightItem_def validFlight_def Let_def priceOrZero_nonneg
           split: if_splits option.splits dest: nonBlankString_SomeD)

lemma normalizeFlightItem_js: "validFlight f \<Longrightarrow> normalizeFlightItem h (js_of_flight f) = Some f"
  by (simp add: normalizeFlightItem_def js_of_flight_def validFlight_def nonBlankString_JStr
        parseNumberValue_def priceOrZero_def stringOrEmpty_def)

lemma map_filter_Some: "(\<And>x. x \<in> set xs \<Longrightarrow> f (g x) = Some x) \<Longrightarrow> List.map_filter f (map g xs) = xs"
  by (induction xs) simp_all

lemma in_map_filterD: "y \<in> set (List.map_filter f xs) \<Longrightarrow> \<exists>x \<in> set xs. f x = Some y"
  by (auto simp: List.map_filter_def)

lemma normalizeFlightList_valid: "f \<in> set (normalizeFlightList h v) \<Longrightarrow> validFlight f"
  by (auto simp: normalizeFlightList_def split: if_splits
           dest!: in_map_filterD dest: normalizeFlightItem_valid)

lemma normalizeFlightList_js:
  "(\<And>f. f \<in> set fs \<Longrightarrow> validFlight f) \<Longrightarrow> normalizeFlightList h (JArr (map js_of_flight fs)) = fs"
  by (simp add: normalizeFlightList_def map_filter_Some normalizeFlightItem_js)

lemma normalizeAccommodationItem_valid:
  "normalizeAccommodationItem h x = Some a \<Longrightarrow> validAccommodation a"
  by (auto simp: normalizeAccommodationItem_def validAccommodation_def Let_def priceOrZero_nonneg
           split: if_splits option.splits dest: nonBlankString_SomeD)

lemma normalizeAccommodationItem_js:
  "validAccommodation a \<Longrightarrow> normalizeAccommodationItem h (js_of_accommodation a) = Some a"
  by (simp add: normalizeAccommodationItem_def js_of_accommodation_def validAccommodation_def
        nonBlankString_JStr parseNumberValue_def priceOrZero_def stringOrEmpty_def)

lemma normalizeAccommodationList_valid:
  "a \<in> set (normalizeAccommodationList h v) \<Longrightarrow> validAccommodation a"
  by (auto simp: normalizeAccommodationList_def split: if_splits
           dest!: in_map_filterD dest: normalizeAccommodationItem_valid)

lemma normalizeAccommodationList_js:
  "(\<And>a. a \<in> set as \<Longrightarrow> validAccommodation a) \<Longrightarrow>
   normalizeAccommodationList h (JArr (map js_of_accommodation as)) = as"
  by (simp add: normalizeAccommodationList_def map_filter_Some normalizeAccommodationItem_js)

lemma mapE_Inr_D: "mapE f xs = Inr ys \<Longrightarrow> y \<in> set ys \<Longrightarrow> \<exists>x \<in> set xs. f x = Inr y"
  by (induction xs arbitrary: ys) (auto split: sum.splits)

lemma normalizeExtraCost_nonneg: "normalizeExtraCost x = Inr e \<Longrightarrow> 0 \<le> ec_value e"
  by (auto simp: normalizeExtraCost_def split: if_splits option.splits)

lemma normalizeExtraCosts_valid:
  "normalizeExtraCosts v = Inr xs \<Longrightarrow> e \<in> set xs \<Longrightarrow> validExtraCost e"
  by (auto simp: normalizeExtraCosts_def validExtraCost_def keepExtraCost_def
           split: if_splits option.splits sum.splits
           dest: mapE_Inr_D normalizeExtraCost_nonneg)

lemma normalizeExtraCost_js: "0 \<le> ec_value e \<Longrightarrow> normalizeExtraCost (js_of_extraCost e) = Inr e"
  by (simp add: normalizeExtraCost_def js_of_extraCost_def stringOrEmpty_def)

lemma mapE_Inr: "(\<And>x. x \<in> set xs \<Longrightarrow> f (g x) = Inr x) \<Longrightarrow> mapE f (map g xs) = Inr xs"
  by (induction xs) simp_all

lemma normalizeExtraCosts_js:
  assumes "\<And>e. e \<in> set xs \<Longrightarrow> validExtraCost e"
  shows "normalizeExtraCosts (JArr (map js_of_extraCost xs)) = Inr xs"
proof -
  have "mapE normalizeExtraCost (map js_of_extraCost xs) = Inr xs"
    using assms by (intro mapE_Inr normalizeExtraCost_js) (simp add: validExtraCost_def)
  moreover have "filter keepExtraCost xs = xs"
    using assms by (simp add: validExtraCost_def filter_id_conv)
  ultimately show ?thesis by (simp add: normalizeExtraCosts_def)
qed

lemma normalizeFlightAssignments_valid: "validAssignments (normalizeFlightAssignments v)"
  by (simp add: validAssignments_def normalizeFlightAssignments_distinct
        normalizeFlightAssignments_values)

lemma foldl_assignmentStep_js:
  "distinct (map fst (acc @ m)) \<Longrightarrow> \<forall>e \<in> set m. 0 \<le> snd e \<and> snd e \<in> \<int> \<Longrightarrow>
   foldl assignmentStep acc (map (\<lambda>e. (fst e, JNum (Fin (snd e)))) m) = acc @ m"
proof (induction m arbitrary: acc)
  case Nil
  then show ?case by simp
next
  case (Cons e m)
  obtain k c where e: "e = (k, c)" by (cases e)
  from Cons.prems e have c: "0 \<le> c" "of_int \<lfloor>c\<rfloor> = c" by (auto elim: Ints_cases)
  from Cons.prems e have fresh: "k \<notin> fst ` set acc" by auto
  from Cons.prems e have "distinct (map fst ((acc @ [(k, c)]) @ m))" by auto
  from Cons.IH [OF this] Cons.prems(2) c fresh e show ?case
    by (simp add: assignmentStep_def update_fresh)
qed

lemma normalizeFlightAssignments_js:
  "validAssignments m \<Longrightarrow> normalizeFlightAssignments (js_of_assignments m) = m"
  using foldl_assignmentStep_js [of "[]" m]
  by (simp add: normalizeFlightAssignments_def js_of_assignments_def validAssignments_def)

lemma trim_generated: "trim (s @ CHR ''-'' # t) \<noteq> []"
  by (auto simp: trim_nonempty_iff isWhiteSpace_def)

lemma trim_default_name: "trim ''Saved attempt'' \<noteq> []"
  by (simp add: trim_nonempty_iff isWhiteSpace_def)

lemma normalizeBudgetAttempt_valid: "normalizeBudgetAttempt h i x = Some a \<Longrightarrow> validAttempt a"
  unfolding normalizeBudgetAttempt_def validAttempt_def Let_def
  by (auto simp: trim_generated trim_default_name normalizeFlightAssignments_valid
           split: if_splits option.splits dest: nonBlankString_SomeD simp del: member.simps)

lemma normalizeBudgetAttempt_js:
  "validAttempt a \<Longrightarrow> normalizeBudgetAttempt h i (js_of_attempt a) = Some a"
  by (simp add: normalizeBudgetAttempt_def js_of_attempt_def validAttempt_def Let_def
        nonBlankString_JStr finiteOr_def stringOrEmpty_def normalizeFlightAssignments_js)

lemma normalizeBudgetAttempts_valid:
  "a \<in> set (normalizeBudgetAttempts h v) \<Longrightarrow> validAttempt a"
  by (auto simp: normalizeBudgetAttempts_def split: if_splits
           dest!: in_set_takeD in_map_filterD dest: normalizeBudgetAttempt_valid)

lemma find_Some_mem: "find P xs = Some a \<Longrightarrow> a \<in> set xs"
  by (induction xs) (auto split: if_splits)

lemma preferredAttempt_mem: "preferredAttempt w xs = Some a \<Longrightarrow> a \<in> set xs"
proof (cases "find (\<lambda>attempt. at_id attempt = w) xs")
  case None
  assume "preferredAttempt w xs = Some a"
  with None show ?thesis by (cases xs) (simp_all add: preferredAttempt_def)
next
  case (Some b)
  assume "preferredAttempt w xs = Some a"
  with Some have "a = b" by (simp add: preferredAttempt_def)
  with Some show ?thesis by (simp add: find_Some_mem)
qed

lemma validAttempt_id: "validAttempt a \<Longrightarrow> at_id a \<noteq> []"
  by (auto simp: validAttempt_def trim_def)

lemma normalizeBudgetEstimator_valid: "validEstimator (normalizeBudgetEstimator h v)"
proof (cases "preferredAttempt (stringOrEmpty (member v ''fixedAttemptId''))
                (normalizeBudgetAttempts h (member v ''attempts''))")
  case None
  then show ?thesis
    by (simp add: validEstimator_def normalizeBudgetEstimator_def Let_def
          normalizeFlightAssignments_valid del: member.simps)
next
  case (Some a)
  then have "validAttempt a"
    by (auto dest!: preferredAttempt_mem dest: normalizeBudgetAttempts_valid)
  with Some show ?thesis
    by (simp add: validEstimator_def normalizeBudgetEstimator_def Let_def
          normalizeFlightAssignments_valid validAttempt_id del: member.simps)
qed

lemma normalizeBudgetAttempts_js_single:
  "validAttempt a \<Longrightarrow> normalizeBudgetAttempts h (JArr [js_of_attempt a]) = [a]"
  by (simp add: normalizeBudgetAttempts_def enumerate_eq_zip normalizeBudgetAttempt_js)

lemma normalizeBudgetEstimator_js:
  assumes "validEstimator b"
  shows "normalizeBudgetEstimator h (js_of_estimator b) = b"
proof -
  from assms consider "attempts b = []" "fixedAttemptId b = ''''"
    | a where "attempts b = [a]" "validAttempt a" "fixedAttemptId b = at_id a"
    by (auto simp: validEstimator_def)
  then show ?thesis
  proof cases
    case 1
    with assms show ?thesis
      by (simp add: normalizeBudgetEstimator_def js_of_estimator_def Let_def validEstimator_def
            normalizeFlightAssignments_js stringOrEmpty_def normalizeBudgetAttempts_def
            preferredAttempt_def)
  next
    case 2
    with assms show ?thesis
      by (simp add: normalizeBudgetEstimator_def js_of_estimator_def Let_def validEstimator_def
            normalizeFlightAssignments_js stringOrEmpty_def normalizeBudgetAttempts_js_single
            preferredAttempt_def validAttempt_id)
  qed
qed

lemma flightDraft_fields:
  "stringValue (member (js_of_flightDraft d) ''link'') = fd_link d"
  "stringValue (member (js_of_flightDraft d) ''description'') = fd_description d"
  "stringValue (member (js_of_flightDraft d) ''startDate'') = fd_startDate d"
  "stringValue (member (js_of_flightDraft d) ''endDate'') = fd_endDate d"
  "validFlightDraft d \<Longrightarrow>
     nonNegative (member (js_of_flightDraft d) ''pricePerPerson'') = fd_pricePerPerson d"
  by (simp_all add: js_of_flightDraft_def js_field_def validFlightDraft_def nonNegative_def
        split: option.splits)

lemma accommodationDraft_fields:
  "stringValue (member (js_of_accommodationDraft d) ''link'') = ad_link d"
  "stringValue (member (js_of_accommodationDraft d) ''description'') = ad_description d"
  "stringValue (member (js_of_accommodationDraft d) ''startDate'') = ad_startDate d"
  "stringValue (member (js_of_accommodationDraft d) ''endDate'') = ad_endDate d"
  "validAccommodationDraft d \<Longrightarrow>
     nonNegative (member (js_of_accommodationDraft d) ''totalPrice'') = ad_totalPrice d"
  by (simp_all add: js_of_accommodationDraft_def js_field_def validAccommodationDraft_def
        nonNegative_def split: option.splits)

lemma draft_objects:
  "\<not> notPlainObject (js_of_flightDraft fd)" "\<not> notPlainObject (js_of_accommodationDraft ad)"
  by (simp_all add: js_of_flightDraft_def js_of_accommodationDraft_def notPlainObject_def)

lemma nonNegative_valid: "(case nonNegative v of Some p \<Rightarrow> 0 \<le> p | None \<Rightarrow> True)"
  by (simp add: nonNegative_def split: option.splits)

lemma normalizeFlightDraft_valid: "validFlightDraft (normalizeFlightDraft v)"
  by (simp add: normalizeFlightDraft_def validFlightDraft_def nonNegative_valid del: member.simps)

lemma normalizeAccommodationDraft_valid: "validAccommodationDraft (normalizeAccommodationDraft v)"
  by (simp add: normalizeAccommodationDraft_def validAccommodationDraft_def nonNegative_valid
      del: member.simps)

lemma normalizeFlightDraft_js:
  "validFlightDraft d \<Longrightarrow> normalizeFlightDraft (js_of_flightDraft d) = d"
  by (simp add: normalizeFlightDraft_def flightDraft_fields draft_objects)

lemma normalizeAccommodationDraft_js:
  "validAccommodationDraft d \<Longrightarrow> normalizeAccommodationDraft (js_of_accommodationDraft d) = d"
  by (simp add: normalizeAccommodationDraft_def accommodationDraft_fields draft_objects)

lemma normalizeDestinationCandidate_valid:
  assumes "normalizeDestinationCandidate h x = Inr (Some d)"
  shows "validDestination d"
proof -
  from assms obtain id' name' latitude' longitude' extraCosts'
    where id': "nonBlankString (member x ''id'') = Some id'"
      and name': "nonBlankString (member x ''name'') = Some name'"
      and ec: "normalizeExtraCosts (member x ''extraCosts'') = Inr extraCosts'"
      and d: "d = \<lparr> d_id = id', d_name = name', latitude = latitude', longitude = longitude',
                d_notes = stringOrEmpty (member x ''notes''),
                extraCosts = extraCosts',
                budgetEstimator = normalizeBudgetEstimator h (member x ''budgetEstimator''),
                flightDraft = normalizeFlightDraft (member x ''flightDraft''),
                accommodationDraft = normalizeAccommodationDraft (member x ''accommodationDraft''),
                flights = normalizeFlightList h (member x ''flights''),
                accommodations = normalizeAccommodationList h (member x ''accommodations'') \<rparr>"
    unfolding normalizeDestinationCandidate_def normalizeDestination_def
    by (auto split: if_splits option.splits sum.splits simp del: member.simps)
  from id' name' have "trim id' \<noteq> []" "trim name' \<noteq> []"
    by (auto dest: nonBlankString_SomeD)
  with ec show ?thesis
    unfolding d validDestination_def
    by (auto simp: normalizeBudgetEstimator_valid normalizeFlightDraft_valid
          normalizeAccommodationDraft_valid
          dest: normalizeExtraCosts_valid normalizeFlightList_valid normalizeAccommodationList_valid
          simp del: member.simps)
qed

lemma normalizeDestinationCandidate_js:
  assumes "validDestination d"
  shows "normalizeDestinationCandidate h (js_of_destination d) = Inr (Some d)"
proof -
  from assms have
    "normalizeExtraCosts (JArr (map js_of_extraCost (extraCosts d))) = Inr (extraCosts d)"
    "normalizeBudgetEstimator h (js_of_estimator (budgetEstimator d)) = budgetEstimator d"
    "normalizeFlightDraft (js_of_flightDraft (flightDraft d)) = flightDraft d"
    "normalizeAccommodationDraft (js_of_accommodationDraft (accommodationDraft d))
       = accommodationDraft d"
    "normalizeFlightList h (JArr (map js_of_flight (flights d))) = flights d"
    "normalizeAccommodationList h (JArr (map js_of_accommodation (accommodations d)))
       = accommodations d"
    "trim (d_id d) \<noteq> []" "trim (d_name d) \<noteq> []"
    by (simp_all add: validDestination_def normalizeExtraCosts_js normalizeBudgetEstimator_js
          normalizeFlightDraft_js normalizeAccommodationDraft_js normalizeFlightList_js
          normalizeAccommodationList_js)
  then show ?thesis
    by (simp add: normalizeDestinationCandidate_def normalizeDestination_def
          js_of_destination_def nonBlankString_JStr parseNumberValue_def stringOrEmpty_def)
qed

lemma mapE_Inr_map_filter:
  "mapE f xs = Inr ys \<Longrightarrow> y \<in> set (List.map_filter (\<lambda>d. d) ys) \<Longrightarrow> \<exists>x \<in> set xs. f x = Inr (Some y)"
  by (auto dest!: in_map_filterD dest: mapE_Inr_D)

lemma mapE_Some: "(\<And>x. x \<in> set xs \<Longrightarrow> f (g x) = Inr (Some x)) \<Longrightarrow> mapE f (map g xs) = Inr (map Some xs)"
  by (induction xs) simp_all

lemma map_filter_map_Some: "List.map_filter (\<lambda>d. d) (map Some xs) = xs"
  by (induction xs) simp_all

lemma parseTripSyncPayload_valid:
  assumes "parseTripSyncPayload h payload fallback = Inr (Some doc)"
    and "d \<in> set (pp_destinations doc)"
  shows "validDestination d"
proof -
  from assms(1) obtain candidates
    where c: "mapE (normalizeDestinationCandidate h) (elements (member payload ''destinations''))
                = Inr candidates"
      and ds: "pp_destinations doc = List.map_filter (\<lambda>d. d) candidates"
    unfolding parseTripSyncPayload_def Let_def
    by (auto split: if_splits sum.splits simp del: member.simps)
  from mapE_Inr_map_filter [OF c] assms(2) ds
  obtain x where "normalizeDestinationCandidate h x = Inr (Some d)" by auto
  then show ?thesis by (rule normalizeDestinationCandidate_valid)
qed

lemma parseTripSyncPayload_js:
  assumes "\<And>d. d \<in> set ds \<Longrightarrow> validDestination d"
  shows "parseTripSyncPayload h (js_of_document ds s) fallback =
           Inr (Some \<lparr> pp_destinations = ds,
                       pp_settings = normalizeSettings (js_of_settings s) fallback,
                       pp_remoteUpdatedAt = None \<rparr>)"
proof -
  have "mapE (normalizeDestinationCandidate h) (map js_of_destination ds) = Inr (map Some ds)"
    using assms by (intro mapE_Some normalizeDestinationCandidate_js)
  then show ?thesis
    by (cases ds)
       (simp_all add: parseTripSyncPayload_def js_of_document_def Let_def map_filter_map_Some
          parseTimestamp_def)
qed

lemma renormalize_document:
  assumes "parseTripSyncPayload h payload fallback = Inr (Some doc)"
    and "peopleCount fallback \<in> \<int>"
    and "peopleCount (pp_settings doc) \<ge> 1 \<or> peopleCount (pp_settings doc) = peopleCount fallback"
  shows "parseTripSyncPayload h' (js_of_document (pp_destinations doc) (pp_settings doc)) fallback
         = Inr (Some (doc \<lparr> pp_remoteUpdatedAt := None \<rparr>))"
proof -
  from assms(1) have s: "pp_settings doc = normalizeSettings (member payload ''settings'') fallback"
    unfolding parseTripSyncPayload_def Let_def
    by (auto split: if_splits sum.splits simp del: member.simps)
  have "normalizeSettings (js_of_settings (pp_settings doc)) fallback = pp_settings doc"
    unfolding s using assms(2,3) by (intro normalizeSettings_idempotent) (simp_all add: s)
  with parseTripSyncPayload_js [of "pp_destinations doc" h' "pp_settings doc" fallback]
       parseTripSyncPayload_valid [OF assms(1)]
  show ?thesis by simp
qed

end
